theory Spec2Isabelle
  imports Complex_Main "HOL-Library.Multiset"
begin

section \<open>The two files\<close>

text \<open>
  The repository holds two files with one Express/Mongoose server each: \<^verbatim>\<open>server.js\<close>
  and a second, unnamed one that renames fields, writes the request statuses in upper
  case and replaces the accept and decline routes by \<^verbatim>\<open>/friend-requests/respond\<close>.
  Loading a file runs its top-level statements in order; the functions handed to
  \<^verbatim>\<open>app.METHOD\<close> run later, when a request arrives. The second file's \<^verbatim>\<open>Message\<close> schema
  reads an identifier \<^verbatim>\<open>string\<close> that nothing binds, so loading it stops with a
  \<^verbatim>\<open>ReferenceError\<close> before its first route is registered: it answers no request.
  The routes modelled below are therefore those of \<^verbatim>\<open>server.js\<close>.
\<close>

datatype exn =
    TypeError | ReferenceError | ValidationError | DuplicateKeyError | BcryptError
  | JwtError | MongoError

text \<open>
  A top-level statement, with the identifiers it reads while the file loads (those
  inside a function body are not read then).
\<close>

datatype statement =
    Const string "string list"
  | Expr "string list"
  | Route string "string list"

text \<open>
  Loading: the scope grows with each \<^verbatim>\<open>const\<close>; reading an identifier outside it throws.
  The result is the list of registered routes when the last statement has run.
\<close>

fun load :: "string list \<Rightarrow> string list \<Rightarrow> statement list \<Rightarrow> exn + string list" where
  "load scope routes [] = Inr routes"
| "load scope routes (Const x reads # rest) =
     (if list_all (\<lambda>i. i \<in> set scope) reads then load (x # scope) routes rest
      else Inl ReferenceError)"
| "load scope routes (Expr reads # rest) =
     (if list_all (\<lambda>i. i \<in> set scope) reads then load scope routes rest
      else Inl ReferenceError)"
| "load scope routes (Route path reads # rest) =
     (if list_all (\<lambda>i. i \<in> set scope) reads then load scope (routes @ [path]) rest
      else Inl ReferenceError)"

text \<open>What the runtime binds before the file runs, as far as the two files read it.\<close>

definition node_globals :: "string list" where
  "node_globals = [''require'', ''process'', ''String'', ''Date'', ''Boolean'']"

text \<open>Lines 1 to 45 of either file: the imports, the app, the connection, the user model.\<close>

definition prelude :: "statement list" where
  "prelude =
     [Const ''express'' [''require''], Const ''mongoose'' [''require''],
      Const ''bcrypt'' [''require''], Const ''jwt'' [''require''], Expr [''require''],
      Const ''app'' [''express''], Const ''PORT'' [''process''],
      Expr [''app'', ''express''], Expr [''app''], Expr [''mongoose'', ''process''],
      Const ''User'' [''mongoose'', ''String'', ''Date'', ''Boolean'']]"

definition server_js :: "statement list" where
  "server_js = prelude @
     [Const ''Message'' [''mongoose'', ''String'', ''Boolean'', ''Date''],
      Const ''Note'' [''mongoose'', ''String'', ''Date''],
      Const ''generateToken'' [],
      Route ''POST /auth/register'' [''app''],
      Route ''POST /auth/login'' [''app''],
      Const ''authenticate'' [],
      Route ''POST /auth/logout'' [''app'', ''authenticate''],
      Route ''POST /users'' [''app''],
      Route ''GET /users/:id'' [''app'', ''authenticate''],
      Route ''GET /messages/global'' [''app'', ''authenticate''],
      Route ''GET /messages/direct'' [''app'', ''authenticate''],
      Route ''POST /messages'' [''app'', ''authenticate''],
      Route ''GET /notes/:userId'' [''app'', ''authenticate''],
      Route ''POST /notes'' [''app'', ''authenticate''],
      Route ''PUT /notes/:id'' [''app'', ''authenticate''],
      Route ''DELETE /notes/:id'' [''app'', ''authenticate''],
      Route ''POST /friend-requests'' [''app'', ''authenticate''],
      Route ''POST /friend-requests/:id/accept'' [''app'', ''authenticate''],
      Route ''POST /friend-requests/:id/decline'' [''app'', ''authenticate''],
      Route ''GET /friend-requests'' [''app'', ''authenticate''],
      Expr [''app'', ''PORT'']]"

definition part_000 :: "statement list" where
  "part_000 = prelude @
     [Const ''Message'' [''mongoose'', ''String'', ''Boolean'', ''Date'', ''string''],
      Const ''Note'' [''mongoose'', ''String'', ''Date''],
      Const ''generateToken'' [],
      Route ''POST /auth/register'' [''app''],
      Route ''POST /auth/login'' [''app''],
      Const ''authenticate'' [],
      Route ''POST /auth/logout'' [''app'', ''authenticate''],
      Route ''POST /users'' [''app''],
      Route ''GET /users/:id'' [''app'', ''authenticate''],
      Route ''GET /messages/global'' [''app'', ''authenticate''],
      Route ''GET /messages/direct'' [''app'', ''authenticate''],
      Route ''POST /messages'' [''app'', ''authenticate''],
      Route ''GET /notes/:userId'' [''app'', ''authenticate''],
      Route ''POST /notes'' [''app'', ''authenticate''],
      Route ''PUT /notes/:id'' [''app'', ''authenticate''],
      Route ''DELETE /notes/:id'' [''app'', ''authenticate''],
      Route ''POST /friend-requests'' [''app'', ''authenticate''],
      Route ''POST /friend-requests/respond'' [''app'', ''authenticate''],
      Route ''GET /friend-requests'' [''app'', ''authenticate''],
      Expr [''app'', ''PORT'']]"

section \<open>Data of server.js\<close>

type_synonym oid = nat
type_synonym time = nat

subsection \<open>Documents\<close>

record friend_request =
  fr_id :: oid
  fr_from :: oid
  fr_to :: "oid option"
  fr_status :: string

record user =
  u_id :: oid
  username :: string
  steamId :: string
  passwordHash :: string
  createdAt :: time
  lastLogin :: "time option"
  friends :: "oid list"
  friendRequests :: "friend_request list"
  faction :: string
  isOnline :: bool

record message =
  m_id :: oid
  m_userId :: oid
  m_recipientId :: "oid option"
  m_content :: string
  m_isAnonymous :: bool
  m_createdAt :: time

record note_doc =
  n_id :: oid
  n_userId :: oid
  n_title :: string
  n_content :: string
  n_createdAt :: time
  n_updatedAt :: time

text \<open>The database: three collections, each in insertion order.\<close>

record db =
  db_users :: "user list"
  db_messages :: "message list"
  db_notes :: "note_doc list"

subsection \<open>Environment of one request\<close>

text \<open>
  What a handler reads from outside the request: the configured \<^verbatim>\<open>JWT_SECRET\<close> (the
  empty string when it is unset or empty), the clock (in seconds), the ObjectId the
  driver generates for a document created by the request, and the two \<^verbatim>\<open>bcryptjs\<close>
  primitives (\<^verbatim>\<open>hash(password, 10)\<close> with the salt it draws for this call, and
  \<^verbatim>\<open>compare\<close>), which the repository only calls.
\<close>

record env =
  env_secret :: string
  env_now :: time
  env_oid :: oid
  env_hash :: "string \<Rightarrow> string"
  env_compare :: "string \<Rightarrow> string \<Rightarrow> bool"

subsection \<open>Tokens\<close>

text \<open>
  A JSON web token as \<^verbatim>\<open>jsonwebtoken\<close> sees it: the payload, the issue and expiry times
  (seconds) and the key it was signed with. \<^verbatim>\<open>jwt.verify\<close> checks the signature first
  and the expiry second; a token is expired from the second \<^verbatim>\<open>exp\<close> on.
\<close>

record jwt =
  jwt_id :: oid
  jwt_username :: string
  jwt_iat :: time
  jwt_exp :: "time option"
  jwt_key :: string

datatype jwt_error = JsonWebTokenError | TokenExpiredError

definition jwt_sign_1h :: "oid \<Rightarrow> string \<Rightarrow> string \<Rightarrow> time \<Rightarrow> jwt" where
  "jwt_sign_1h i name secret t =
     \<lparr>jwt_id = i, jwt_username = name, jwt_iat = t, jwt_exp = Some (t + 3600), jwt_key = secret\<rparr>"

definition jwt_verify :: "jwt \<Rightarrow> string \<Rightarrow> time \<Rightarrow> jwt_error + jwt" where
  "jwt_verify tok secret t =
     (if jwt_key tok \<noteq> secret then Inl JsonWebTokenError
      else case jwt_exp tok of
             None \<Rightarrow> Inr tok
           | Some e \<Rightarrow> if e \<le> t then Inl TokenExpiredError else Inr tok)"

text \<open>
  The \<^verbatim>\<open>Authorization\<close> header: absent (or the empty string, which is falsy too), a
  string that is no token at all, or a token.
\<close>

datatype auth_header = Absent | Malformed | Token jwt

subsection \<open>Responses\<close>

record populated_ref =
  p_id :: oid
  p_username :: string
  p_faction :: "string option"

record page_metadata =
  totalMessages :: int
  currentPage :: int
  totalPages :: "int option"
  limit :: int

datatype payload =
    Error string
  | Caught exn
  | Info string
  | TokenUser jwt user
  | UserJson user
  | UserWithFriends user "user list"
  | MessagePage page_metadata "(message \<times> populated_ref option \<times> populated_ref option) list"
  | MessageJson message
  | NotesJson "note_doc list"
  | NoteJson note_doc
  | RequestsJson "(friend_request \<times> populated_ref option) list"
  | NotFoundPage

type_synonym response = "nat \<times> payload"

section \<open>Auth gateway\<close>

text \<open>
  \<open>generateToken\<close> is the token \<^verbatim>\<open>jwt.sign\<close> returns. \<^verbatim>\<open>jwt.sign\<close> throws instead when the
  secret is empty or unset; \<open>call_generateToken\<close> is the call as the two handlers that
  issue tokens make it.
\<close>

definition generateToken :: "env \<Rightarrow> user \<Rightarrow> jwt" where
  "generateToken e u = jwt_sign_1h (u_id u) (username u) (env_secret e) (env_now e)"

definition call_generateToken :: "env \<Rightarrow> user \<Rightarrow> exn + jwt" where
  "call_generateToken e u = (if env_secret e = [] then Inl JwtError else Inr (generateToken e u))"

text \<open>
  The middleware either answers itself (\<open>Inl\<close>) or hands the decoded payload to the
  handler as \<^verbatim>\<open>req.user\<close> (\<open>Inr\<close>).
\<close>

definition authenticate :: "env \<Rightarrow> auth_header \<Rightarrow> response + jwt" where
  "authenticate e h =
     (case h of
        Absent \<Rightarrow> Inl (401, Error ''No token provided'')
      | Malformed \<Rightarrow> Inl (403, Error ''Invalid token'')
      | Token tok \<Rightarrow>
          (case jwt_verify tok (env_secret e) (env_now e) of
             Inl err \<Rightarrow> Inl (403, Error ''Invalid token'')
           | Inr decoded \<Rightarrow> Inr decoded))"

section \<open>The object mapper\<close>

text \<open>
  Mongoose and the database are not code of the repository; the model keeps of them what
  the handlers rely on. A collection is a list in insertion order. \<^verbatim>\<open>findById\<close> and
  \<^verbatim>\<open>findOne\<close> return the first match. \<^verbatim>\<open>save()\<close> of a loaded document sends only the
  paths the handler changed (a \<^verbatim>\<open>$set\<close> or \<^verbatim>\<open>$push\<close> on the stored document with that
  \<^verbatim>\<open>_id\<close>), so two copies of one document saved in turn both take effect.
  \<^verbatim>\<open>save()\<close> of a new document validates it against the schema and inserts it; the
  database rejects a duplicate \<^verbatim>\<open>_id\<close> and, for users, a duplicate \<^verbatim>\<open>username\<close> (the
  schema's \<^verbatim>\<open>unique\<close> index). Stored documents satisfy the schema. Identifiers in
  requests are well-formed: a value that does not cast (answered 400 by the \<^verbatim>\<open>catch\<close>) is
  outside the model.
\<close>

fun update_first :: "('a \<Rightarrow> bool) \<Rightarrow> ('a \<Rightarrow> 'a) \<Rightarrow> 'a list \<Rightarrow> 'a list" where
  "update_first p f [] = []"
| "update_first p f (x # xs) = (if p x then f x # xs else x # update_first p f xs)"

definition findById :: "oid \<Rightarrow> user list \<Rightarrow> user option" where
  "findById i us = find (\<lambda>u. u_id u = i) us"

definition findOne_username :: "string \<Rightarrow> user list \<Rightarrow> user option" where
  "findOne_username n us = find (\<lambda>u. username u = n) us"

definition update_user :: "oid \<Rightarrow> (user \<Rightarrow> user) \<Rightarrow> db \<Rightarrow> db" where
  "update_user i f d = d\<lparr>db_users := update_first (\<lambda>u. u_id u = i) f (db_users d)\<rparr>"

definition insert_user :: "user \<Rightarrow> db \<Rightarrow> exn + db" where
  "insert_user u d =
     (if u_id u \<in> set (map u_id (db_users d)) \<or> username u \<in> set (map username (db_users d))
      then Inl DuplicateKeyError
      else Inr (d\<lparr>db_users := db_users d @ [u]\<rparr>))"

definition insert_message :: "message \<Rightarrow> db \<Rightarrow> exn + db" where
  "insert_message m d =
     (if m_id m \<in> set (map m_id (db_messages d)) then Inl DuplicateKeyError
      else Inr (d\<lparr>db_messages := db_messages d @ [m]\<rparr>))"

definition insert_note :: "note_doc \<Rightarrow> db \<Rightarrow> exn + db" where
  "insert_note n d =
     (if n_id n \<in> set (map n_id (db_notes d)) then Inl DuplicateKeyError
      else Inr (d\<lparr>db_notes := db_notes d @ [n]\<rparr>))"

subsection \<open>Schemas\<close>

definition statuses :: "string list" where
  "statuses = [''pending'', ''accepted'', ''declined'']"

definition default_status :: string where
  "default_status = ''pending''"

definition factions :: "string list" where
  "factions = [''LONER'', ''UKM'', ''ECOLOGISTS'', ''MERCS'', ''CLEAR_SKY'', ''BROTHERHOOD'',
               ''DUTY'', ''FREEDOM'', ''MONOLITH'', ''RENEGADES'']"

text \<open>\<^verbatim>\<open>required: true\<close> on a String path rejects a missing value and the empty string.\<close>

definition required_string :: "string option \<Rightarrow> bool" where
  "required_string x = (case x of None \<Rightarrow> False | Some s \<Rightarrow> s \<noteq> [])"

text \<open>
  The fields a caller can hand to \<^verbatim>\<open>new User(...)\<close>; a field the schema does not know is
  dropped.
\<close>

record user_fields =
  in_username :: "string option"
  in_steamId :: "string option"
  in_passwordHash :: "string option"
  in_friends :: "oid list"
  in_faction :: "string option"
  in_isOnline :: "bool option"

definition new_User :: "env \<Rightarrow> user_fields \<Rightarrow> exn + user" where
  "new_User e obj =
     (let fac = (case in_faction obj of None \<Rightarrow> ''LONER'' | Some f \<Rightarrow> f) in
      if required_string (in_username obj) \<and> required_string (in_steamId obj)
         \<and> required_string (in_passwordHash obj) \<and> fac \<in> set factions
      then Inr \<lparr>u_id = env_oid e,
                username = (case in_username obj of None \<Rightarrow> [] | Some s \<Rightarrow> s),
                steamId = (case in_steamId obj of None \<Rightarrow> [] | Some s \<Rightarrow> s),
                passwordHash = (case in_passwordHash obj of None \<Rightarrow> [] | Some s \<Rightarrow> s),
                createdAt = env_now e,
                lastLogin = None,
                friends = in_friends obj,
                friendRequests = [],
                faction = fac,
                isOnline = (case in_isOnline obj of None \<Rightarrow> False | Some b \<Rightarrow> b)\<rparr>
      else Inl ValidationError)"

record message_body =
  mb_userId :: "oid option"
  mb_recipientId :: "oid option"
  mb_content :: "string option"
  mb_isAnonymous :: "bool option"

definition new_Message :: "env \<Rightarrow> message_body \<Rightarrow> exn + message" where
  "new_Message e obj =
     (case mb_userId obj of
        None \<Rightarrow> Inl ValidationError
      | Some author \<Rightarrow>
          if required_string (mb_content obj)
          then Inr \<lparr>m_id = env_oid e,
                    m_userId = author,
                    m_recipientId = mb_recipientId obj,
                    m_content = (case mb_content obj of None \<Rightarrow> [] | Some s \<Rightarrow> s),
                    m_isAnonymous = (case mb_isAnonymous obj of None \<Rightarrow> False | Some b \<Rightarrow> b),
                    m_createdAt = env_now e\<rparr>
          else Inl ValidationError)"

record note_body =
  nb_userId :: "oid option"
  nb_title :: "string option"
  nb_content :: "string option"

definition new_Note :: "env \<Rightarrow> note_body \<Rightarrow> exn + note_doc" where
  "new_Note e obj =
     (case nb_userId obj of
        None \<Rightarrow> Inl ValidationError
      | Some owner \<Rightarrow>
          if required_string (nb_title obj) \<and> required_string (nb_content obj)
          then Inr \<lparr>n_id = env_oid e,
                    n_userId = owner,
                    n_title = (case nb_title obj of None \<Rightarrow> [] | Some s \<Rightarrow> s),
                    n_content = (case nb_content obj of None \<Rightarrow> [] | Some s \<Rightarrow> s),
                    n_createdAt = env_now e,
                    n_updatedAt = env_now e\<rparr>
          else Inl ValidationError)"

text \<open>
  \<^verbatim>\<open>populate(path, fields)\<close> replaces a reference by the selected fields of the user it
  names, or by \<^verbatim>\<open>null\<close> when there is no such user: \<^verbatim>\<open>'username faction'\<close> for the
  parties of a message, \<^verbatim>\<open>'username'\<close> for the sender of a request.
\<close>

definition populate_author :: "user list \<Rightarrow> oid \<Rightarrow> populated_ref option" where
  "populate_author us i =
     map_option (\<lambda>u. \<lparr>p_id = u_id u, p_username = username u, p_faction = Some (faction u)\<rparr>)
       (findById i us)"

definition populate_sender :: "user list \<Rightarrow> oid \<Rightarrow> populated_ref option" where
  "populate_sender us i =
     map_option (\<lambda>u. \<lparr>p_id = u_id u, p_username = username u, p_faction = None\<rparr>)
       (findById i us)"

section \<open>Registration, login, logout\<close>

record register_body =
  rb_username :: "string option"
  rb_password :: "string option"
  rb_steamId :: "string option"

text \<open>
  \<^verbatim>\<open>bcrypt.hash\<close> rejects a password that is not a string. The token is signed after the
  user is saved: when signing throws, the \<^verbatim>\<open>catch\<close> answers 400 and the user stays written.
\<close>

definition post_auth_register :: "env \<Rightarrow> register_body \<Rightarrow> db \<Rightarrow> response \<times> db" where
  "post_auth_register e body d =
     (case rb_password body of
        None \<Rightarrow> ((400, Caught BcryptError), d)
      | Some password \<Rightarrow>
          (let passwordHash = env_hash e password in
           case new_User e \<lparr>in_username = rb_username body, in_steamId = rb_steamId body,
                             in_passwordHash = Some passwordHash,
                             in_friends = [], in_faction = None, in_isOnline = None\<rparr> of
             Inl err \<Rightarrow> ((400, Caught err), d)
           | Inr user \<Rightarrow>
               (case insert_user user d of
                  Inl err \<Rightarrow> ((400, Caught err), d)
                | Inr d' \<Rightarrow>
                    (case call_generateToken e user of
                       Inl err \<Rightarrow> ((400, Caught err), d')
                     | Inr token \<Rightarrow> ((201, TokenUser token user), d')))))"

record login_body =
  lb_username :: string
  lb_password :: "string option"

text \<open>
  The body names a username; a password that is not a string makes \<^verbatim>\<open>bcrypt.compare\<close>
  throw. Here too the token is signed after \<^verbatim>\<open>user.save()\<close>.
\<close>

definition post_auth_login :: "env \<Rightarrow> login_body \<Rightarrow> db \<Rightarrow> response \<times> db" where
  "post_auth_login e body d =
     (case findOne_username (lb_username body) (db_users d) of
        None \<Rightarrow> ((404, Error ''User not found''), d)
      | Some user \<Rightarrow>
          (case lb_password body of
             None \<Rightarrow> ((400, Caught BcryptError), d)
           | Some password \<Rightarrow>
               if \<not> env_compare e password (passwordHash user)
               then ((401, Error ''Invalid credentials''), d)
               else
                 (let touch = (\<lambda>u. u\<lparr>lastLogin := Some (env_now e), isOnline := True\<rparr>);
                      d' = update_user (u_id user) touch d
                  in case call_generateToken e (touch user) of
                       Inl err \<Rightarrow> ((400, Caught err), d')
                     | Inr token \<Rightarrow> ((200, TokenUser token (touch user)), d'))))"

definition post_auth_logout :: "jwt \<Rightarrow> db \<Rightarrow> response \<times> db" where
  "post_auth_logout ident d =
     (case findById (jwt_id ident) (db_users d) of
        None \<Rightarrow> ((404, Error ''User not found''), d)
      | Some user \<Rightarrow>
          ((200, Info ''Logged out successfully''),
           update_user (u_id user) (\<lambda>u. u\<lparr>isOnline := False\<rparr>) d))"

section \<open>Users\<close>

definition post_users :: "env \<Rightarrow> user_fields \<Rightarrow> db \<Rightarrow> response \<times> db" where
  "post_users e body d =
     (case new_User e body of
        Inl err \<Rightarrow> ((400, Caught err), d)
      | Inr user \<Rightarrow>
          (case insert_user user d of
             Inl err \<Rightarrow> ((400, Caught err), d)
           | Inr d' \<Rightarrow> ((201, UserJson user), d')))"

definition get_user :: "oid \<Rightarrow> db \<Rightarrow> response \<times> db" where
  "get_user i d =
     (case findById i (db_users d) of
        None \<Rightarrow> ((404, Error ''User not found''), d)
      | Some user \<Rightarrow>
          ((200, UserWithFriends user
                   (List.map_filter (\<lambda>f. findById f (db_users d)) (friends user))), d))"

section \<open>Messages\<close>

text \<open>
  JavaScript's numbers are doubles: integers are exact, and the arithmetic below agrees
  with the integers', as long as the values stay inside this range.
\<close>

definition safe_integer :: "int \<Rightarrow> bool" where
  "safe_integer n = (\<bar>n\<bar> < 2 ^ 53)"

text \<open>
  \<^verbatim>\<open>/messages/global\<close> reads both parameters through \<^verbatim>\<open>parseInt\<close>: \<open>q_page\<close> and \<open>q_limit\<close>
  are what \<^verbatim>\<open>parseInt\<close> makes of them (\<open>None\<close> for \<^verbatim>\<open>NaN\<close>, as for an absent parameter).
\<close>

record page_query =
  q_page :: "int option"
  q_limit :: "int option"

text \<open>\<^verbatim>\<open>parseInt(x) || dflt\<close>: \<^verbatim>\<open>NaN\<close> and \<^verbatim>\<open>0\<close> are falsy.\<close>

definition or_default :: "int option \<Rightarrow> int \<Rightarrow> int" where
  "or_default q dflt = (case q of None \<Rightarrow> dflt | Some n \<Rightarrow> if n = 0 then dflt else n)"

text \<open>
  \<^verbatim>\<open>/messages/direct\<close> reads a parameter in two ways: \<^verbatim>\<open>parseInt\<close> for the limit it hands
  to the query and for the page and limit it reports, and the numeric coercion of
  \<^verbatim>\<open>-\<close>, \<^verbatim>\<open>*\<close> and \<^verbatim>\<open>/\<close> for the skip and the page count. The two differ on a parameter
  such as \<^verbatim>\<open>1e1\<close> (1 and 10). A parameter that \<^verbatim>\<open>parseInt\<close> cannot read, or whose numeric
  value is not an integer, is outside the model.
\<close>

record raw_number =
  parsed :: int
  coerced :: int

record direct_query =
  dq_recipientId :: "oid option"
  dq_page :: "raw_number option"
  dq_limit :: "raw_number option"

text \<open>A destructuring default applies to an absent parameter only.\<close>

definition destructured :: "raw_number option \<Rightarrow> int \<Rightarrow> raw_number" where
  "destructured q dflt = (case q of None \<Rightarrow> \<lparr>parsed = dflt, coerced = dflt\<rparr> | Some n \<Rightarrow> n)"

text \<open>\<^verbatim>\<open>Math.ceil(a / b)\<close> on integers, \<open>b \<noteq> 0\<close>.\<close>

definition ceil_div :: "int \<Rightarrow> int \<Rightarrow> int" where
  "ceil_div a b = - ((- a) div b)"

text \<open>
  \<^verbatim>\<open>sort({createdAt: -1})\<close>: newest first; documents with equal timestamps keep their
  insertion order.
\<close>

definition newest_first :: "message list \<Rightarrow> message list" where
  "newest_first ms = sort_key (\<lambda>m. - int (m_createdAt m)) ms"

text \<open>
  The database refuses a negative \<^verbatim>\<open>skip\<close>; \<^verbatim>\<open>limit(0)\<close> is no limit and a negative limit
  counts as its absolute value.
\<close>

definition skip_limit :: "int \<Rightarrow> int \<Rightarrow> 'a list \<Rightarrow> exn + 'a list" where
  "skip_limit skip lmt xs =
     (if skip < 0 then Inl MongoError
      else Inr (if lmt = 0 then drop (nat skip) xs else take (nat \<bar>lmt\<bar>) (drop (nat skip) xs)))"

definition populate_message ::
  "user list \<Rightarrow> bool \<Rightarrow> message \<Rightarrow> message \<times> populated_ref option \<times> populated_ref option"
where
  "populate_message us recipient_too m =
     (m, populate_author us (m_userId m),
      (if recipient_too
       then (case m_recipientId m of None \<Rightarrow> None | Some r \<Rightarrow> populate_author us r)
       else None))"

definition get_messages_global :: "page_query \<Rightarrow> db \<Rightarrow> response \<times> db" where
  "get_messages_global q d =
     (let page = or_default (q_page q) 1;
          lmt = or_default (q_limit q) 10;
          global = filter (\<lambda>m. m_recipientId m = None) (db_messages d);
          total = int (length global);
          pages = ceil_div total lmt
      in case skip_limit ((page - 1) * lmt) lmt (newest_first global) of
           Inl err \<Rightarrow> ((400, Caught err), d)
         | Inr found \<Rightarrow>
             ((200, MessagePage
                      \<lparr>totalMessages = total, currentPage = page, totalPages = Some pages,
                       limit = lmt\<rparr>
                      (map (populate_message (db_users d) False) found)), d))"

text \<open>
  \<^verbatim>\<open>/messages/direct\<close> divides by the coerced \<^verbatim>\<open>limit\<close>: when that is 0 the quotient is
  \<^verbatim>\<open>Infinity\<close> or \<^verbatim>\<open>NaN\<close>, which JSON writes as \<^verbatim>\<open>null\<close>.
\<close>

definition get_messages_direct :: "jwt \<Rightarrow> direct_query \<Rightarrow> db \<Rightarrow> response \<times> db" where
  "get_messages_direct ident q d =
     (case dq_recipientId q of
        None \<Rightarrow> ((400, Error ''Recipient ID is required''), d)
      | Some recipientId \<Rightarrow>
          (let page = destructured (dq_page q) 1;
               lmt = destructured (dq_limit q) 10;
               skip = (coerced page - 1) * coerced lmt;
               thread = filter (\<lambda>m. (m_userId m = jwt_id ident \<and> m_recipientId m = Some recipientId)
                                   \<or> (m_userId m = recipientId \<and> m_recipientId m = Some (jwt_id ident)))
                          (db_messages d);
               total = int (length thread)
           in case skip_limit skip (parsed lmt) (newest_first thread) of
                Inl err \<Rightarrow> ((400, Caught err), d)
              | Inr found \<Rightarrow>
                  ((200, MessagePage
                           \<lparr>totalMessages = total, currentPage = parsed page,
                            totalPages = (if coerced lmt = 0 then None
                                          else Some (ceil_div total (coerced lmt))),
                            limit = parsed lmt\<rparr>
                           (map (populate_message (db_users d) True) found)), d)))"

text \<open>\<^verbatim>\<open>{ ...req.body, userId: req.user.id }\<close>: the body's fields, then \<^verbatim>\<open>userId\<close> overwritten.\<close>

definition post_messages :: "env \<Rightarrow> jwt \<Rightarrow> message_body \<Rightarrow> db \<Rightarrow> response \<times> db" where
  "post_messages e ident body d =
     (case new_Message e (body\<lparr>mb_userId := Some (jwt_id ident)\<rparr>) of
        Inl err \<Rightarrow> ((400, Caught err), d)
      | Inr message \<Rightarrow>
          (case insert_message message d of
             Inl err \<Rightarrow> ((400, Caught err), d)
           | Inr d' \<Rightarrow> ((201, MessageJson message), d')))"

section \<open>Notes\<close>

definition get_notes :: "oid \<Rightarrow> db \<Rightarrow> response \<times> db" where
  "get_notes userId d = ((200, NotesJson (filter (\<lambda>n. n_userId n = userId) (db_notes d))), d)"

definition post_notes :: "env \<Rightarrow> jwt \<Rightarrow> note_body \<Rightarrow> db \<Rightarrow> response \<times> db" where
  "post_notes e ident body d =
     (case new_Note e (body\<lparr>nb_userId := Some (jwt_id ident)\<rparr>) of
        Inl err \<Rightarrow> ((400, Caught err), d)
      | Inr n \<Rightarrow>
          (case insert_note n d of
             Inl err \<Rightarrow> ((400, Caught err), d)
           | Inr d' \<Rightarrow> ((201, NoteJson n), d')))"

text \<open>\<^verbatim>\<open>findByIdAndUpdate(id, body, {new: true})\<close> sets the paths the body names, unvalidated.\<close>

definition apply_note_body :: "note_body \<Rightarrow> note_doc \<Rightarrow> note_doc" where
  "apply_note_body body n =
     n\<lparr>n_userId := (case nb_userId body of None \<Rightarrow> n_userId n | Some x \<Rightarrow> x),
       n_title := (case nb_title body of None \<Rightarrow> n_title n | Some x \<Rightarrow> x),
       n_content := (case nb_content body of None \<Rightarrow> n_content n | Some x \<Rightarrow> x)\<rparr>"

definition put_notes :: "oid \<Rightarrow> note_body \<Rightarrow> db \<Rightarrow> response \<times> db" where
  "put_notes i body d =
     (case find (\<lambda>n. n_id n = i) (db_notes d) of
        None \<Rightarrow> ((404, Error ''Note not found''), d)
      | Some n \<Rightarrow>
          ((200, NoteJson (apply_note_body body n)),
           d\<lparr>db_notes := update_first (\<lambda>n. n_id n = i) (apply_note_body body) (db_notes d)\<rparr>))"

definition delete_notes :: "oid \<Rightarrow> db \<Rightarrow> response \<times> db" where
  "delete_notes i d =
     (case find (\<lambda>n. n_id n = i) (db_notes d) of
        None \<Rightarrow> ((404, Error ''Note not found''), d)
      | Some n \<Rightarrow>
          ((200, Info ''Note deleted successfully''), d\<lparr>db_notes := remove1 n (db_notes d)\<rparr>))"

section \<open>Friend requests\<close>

text \<open>
  \<^verbatim>\<open>Array.prototype.find\<close> with a callback that may throw: the first element on which the
  callback throws ends the search with that exception.
\<close>

fun js_find :: "('a \<Rightarrow> exn + bool) \<Rightarrow> 'a list \<Rightarrow> exn + 'a option" where
  "js_find p [] = Inr None"
| "js_find p (x # xs) =
     (case p x of
        Inl err \<Rightarrow> Inl err
      | Inr True \<Rightarrow> Inr (Some x)
      | Inr False \<Rightarrow> js_find p xs)"

text \<open>
  The callback of \<^verbatim>\<open>POST /friend-requests\<close> is
  \<^verbatim>\<open>(req) => req.from.toString() === req.user.id\<close>. Its parameter hides the handler's
  \<^verbatim>\<open>req\<close>: inside, \<^verbatim>\<open>req\<close> is the request record, whose schema has no path \<^verbatim>\<open>user\<close>, so
  \<^verbatim>\<open>req.user\<close> is \<^verbatim>\<open>undefined\<close> and reading \<^verbatim>\<open>.id\<close> of it throws a \<^verbatim>\<open>TypeError\<close>.
\<close>

definition subdoc_user :: "friend_request \<Rightarrow> jwt option" where
  "subdoc_user r = None"

definition existing_request_callback :: "friend_request \<Rightarrow> exn + bool" where
  "existing_request_callback r =
     (case subdoc_user r of
        None \<Rightarrow> Inl TypeError
      | Some u \<Rightarrow> Inr (fr_from r = jwt_id u))"

definition post_friend_requests :: "env \<Rightarrow> jwt \<Rightarrow> oid option \<Rightarrow> db \<Rightarrow> response \<times> db" where
  "post_friend_requests e ident toUserId d =
     (if Some (jwt_id ident) = toUserId
      then ((400, Error ''You can't send a friend request to yourself.''), d)
      else case (case toUserId of None \<Rightarrow> None | Some t \<Rightarrow> findById t (db_users d)) of
        None \<Rightarrow> ((404, Error ''User not found''), d)
      | Some toUser \<Rightarrow>
          if jwt_id ident \<in> set (friends toUser)
          then ((400, Error ''User is already your friend.''), d)
          else
            (case js_find existing_request_callback (friendRequests toUser) of
               Inl err \<Rightarrow> ((400, Caught err), d)
             | Inr (Some existingRequest) \<Rightarrow> ((400, Error ''Friend request already sent.''), d)
             | Inr None \<Rightarrow>
                 ((201, Info ''Friend request sent successfully.''),
                  update_user (u_id toUser)
                    (\<lambda>u. u\<lparr>friendRequests := friendRequests u @
                               [\<lparr>fr_id = env_oid e, fr_from = jwt_id ident, fr_to = toUserId,
                                 fr_status = default_status\<rparr>]\<rparr>) d)))"

definition set_status :: "oid \<Rightarrow> string \<Rightarrow> friend_request list \<Rightarrow> friend_request list" where
  "set_status rid s rs = update_first (\<lambda>r. fr_id r = rid) (\<lambda>r. r\<lparr>fr_status := s\<rparr>) rs"

definition push_friend :: "oid \<Rightarrow> oid \<Rightarrow> db \<Rightarrow> db" where
  "push_friend owner friend d = update_user owner (\<lambda>u. u\<lparr>friends := friends u @ [friend]\<rparr>) d"

definition save_status :: "oid \<Rightarrow> oid \<Rightarrow> string \<Rightarrow> db \<Rightarrow> db" where
  "save_status owner rid s d =
     update_user owner (\<lambda>u. u\<lparr>friendRequests := set_status rid s (friendRequests u)\<rparr>) d"

text \<open>
  \<^verbatim>\<open>accept\<close> loads the user with the senders populated: a request whose sender is gone has
  \<^verbatim>\<open>from\<close> \<^verbatim>\<open>null\<close>, and \<^verbatim>\<open>request.from._id\<close> throws. A caller whose own user is gone makes
  either handler throw on \<^verbatim>\<open>user.friendRequests\<close>. Neither handler removes the record.
\<close>

definition post_friend_requests_accept :: "jwt \<Rightarrow> oid \<Rightarrow> db \<Rightarrow> response \<times> db" where
  "post_friend_requests_accept ident requestId d =
     (case findById (jwt_id ident) (db_users d) of
        None \<Rightarrow> ((400, Caught TypeError), d)
      | Some user \<Rightarrow>
          (case find (\<lambda>r. fr_id r = requestId) (friendRequests user) of
             None \<Rightarrow> ((404, Error ''Friend request not found or already processed.''), d)
           | Some request \<Rightarrow>
               if fr_status request \<noteq> ''pending''
               then ((404, Error ''Friend request not found or already processed.''), d)
               else
                 (case findById (fr_from request) (db_users d) of
                    None \<Rightarrow> ((400, Caught TypeError), d)
                  | Some otherUser \<Rightarrow>
                      (let d1 = update_user (u_id user)
                                  (\<lambda>u. u\<lparr>friends := friends u @ [u_id otherUser],
                                          friendRequests :=
                                            set_status (fr_id request) ''accepted'' (friendRequests u)\<rparr>) d;
                           d2 = push_friend (u_id otherUser) (jwt_id ident) d1
                       in ((200, Info ''Friend request accepted.''), d2)))))"

definition post_friend_requests_decline :: "jwt \<Rightarrow> oid \<Rightarrow> db \<Rightarrow> response \<times> db" where
  "post_friend_requests_decline ident requestId d =
     (case findById (jwt_id ident) (db_users d) of
        None \<Rightarrow> ((400, Caught TypeError), d)
      | Some user \<Rightarrow>
          (case find (\<lambda>r. fr_id r = requestId) (friendRequests user) of
             None \<Rightarrow> ((404, Error ''Friend request not found or already processed.''), d)
           | Some request \<Rightarrow>
               if fr_status request \<noteq> ''pending''
               then ((404, Error ''Friend request not found or already processed.''), d)
               else ((200, Info ''Friend request declined.''),
                     save_status (u_id user) (fr_id request) ''declined'' d)))"

definition get_friend_requests :: "jwt \<Rightarrow> db \<Rightarrow> response \<times> db" where
  "get_friend_requests ident d =
     (case findById (jwt_id ident) (db_users d) of
        None \<Rightarrow> ((400, Caught TypeError), d)
      | Some user \<Rightarrow>
          ((200, RequestsJson
                   (map (\<lambda>r. (r, populate_sender (db_users d) (fr_from r)))
                      (filter (\<lambda>r. fr_status r = ''pending'') (friendRequests user)))), d))"

section \<open>Routing\<close>

text \<open>
  The requests \<^verbatim>\<open>server.js\<close> can receive, one constructor for each route it registers and
  one for \<^verbatim>\<open>POST /friend-requests/respond\<close>, which it does not register.
\<close>

datatype request =
    PostAuthRegister register_body
  | PostAuthLogin login_body
  | PostAuthLogout
  | PostUsers user_fields
  | GetUser oid
  | GetMessagesGlobal page_query
  | GetMessagesDirect direct_query
  | PostMessages message_body
  | GetNotes oid
  | PostNotes note_body
  | PutNotes oid note_body
  | DeleteNotes oid
  | PostFriendRequests "oid option"
  | PostFriendRequestsRespond "oid option" "string option"
  | PostFriendRequestsAccept oid
  | PostFriendRequestsDecline oid
  | GetFriendRequests

text \<open>A route registered as \<^verbatim>\<open>app.METHOD(path, authenticate, handler)\<close>.\<close>

definition protected ::
  "env \<Rightarrow> auth_header \<Rightarrow> (jwt \<Rightarrow> db \<Rightarrow> response \<times> db) \<Rightarrow> db \<Rightarrow> response \<times> db"
where
  "protected e h handler d =
     (case authenticate e h of
        Inl refusal \<Rightarrow> (refusal, d)
      | Inr ident \<Rightarrow> handler ident d)"

text \<open>
  The routes as \<^verbatim>\<open>server.js\<close> registers them; a path it does not register gets the
  framework's 404.
\<close>

definition serve :: "env \<Rightarrow> auth_header \<Rightarrow> request \<Rightarrow> db \<Rightarrow> response \<times> db" where
  "serve e h rq d =
     (case rq of
        PostAuthRegister body \<Rightarrow> post_auth_register e body d
      | PostAuthLogin body \<Rightarrow> post_auth_login e body d
      | PostAuthLogout \<Rightarrow> protected e h post_auth_logout d
      | PostUsers body \<Rightarrow> post_users e body d
      | GetUser i \<Rightarrow> protected e h (\<lambda>ident. get_user i) d
      | GetMessagesGlobal q \<Rightarrow> protected e h (\<lambda>ident. get_messages_global q) d
      | GetMessagesDirect q \<Rightarrow> protected e h (\<lambda>ident. get_messages_direct ident q) d
      | PostMessages body \<Rightarrow> protected e h (\<lambda>ident. post_messages e ident body) d
      | GetNotes userId \<Rightarrow> protected e h (\<lambda>ident. get_notes userId) d
      | PostNotes body \<Rightarrow> protected e h (\<lambda>ident. post_notes e ident body) d
      | PutNotes i body \<Rightarrow> protected e h (\<lambda>ident. put_notes i body) d
      | DeleteNotes i \<Rightarrow> protected e h (\<lambda>ident. delete_notes i) d
      | PostFriendRequests toUserId \<Rightarrow>
          protected e h (\<lambda>ident. post_friend_requests e ident toUserId) d
      | PostFriendRequestsRespond requestId status \<Rightarrow> ((404, NotFoundPage), d)
      | PostFriendRequestsAccept requestId \<Rightarrow>
          protected e h (\<lambda>ident. post_friend_requests_accept ident requestId) d
      | PostFriendRequestsDecline requestId \<Rightarrow>
          protected e h (\<lambda>ident. post_friend_requests_decline ident requestId) d
      | GetFriendRequests \<Rightarrow> protected e h (\<lambda>ident. get_friend_requests ident) d)"

section \<open>Reading a page out of an answer\<close>

definition listed :: "response \<times> db \<Rightarrow> message list" where
  "listed r = (case snd (fst r) of MessagePage md rows \<Rightarrow> map fst rows | _ \<Rightarrow> [])"

definition page_info :: "response \<times> db \<Rightarrow> page_metadata option" where
  "page_info r = (case snd (fst r) of MessagePage md rows \<Rightarrow> Some md | _ \<Rightarrow> None)"

section \<open>Example data\<close>

definition env0 :: env where
  "env0 = \<lparr>env_secret = ''s3cret'', env_now = 1000, env_oid = 7,
            env_hash = (\<lambda>p. ''$2a$10$'' @ rev p),
            env_compare = (\<lambda>p h. h = ''$2a$10$'' @ rev p)\<rparr>"

text \<open>The same server started without a \<^verbatim>\<open>JWT_SECRET\<close>.\<close>

definition env_unset :: env where
  "env_unset = env0\<lparr>env_secret := []\<rparr>"

text \<open>A hash that reads a prefix of the password only, as bcrypt does past 72 bytes.\<close>

definition env_prefix :: env where
  "env_prefix = env0\<lparr>env_hash := (\<lambda>p. ''$2a$10$'' @ rev (take 6 p))\<rparr>"

definition alice :: user where
  "alice = \<lparr>u_id = 1, username = ''alice'', steamId = ''s-1'', passwordHash = ''$2a$10$drowssap'',
             createdAt = 10, lastLogin = None, friends = [],
             friendRequests = [], faction = ''LONER'', isOnline = False\<rparr>"

text \<open>Bob holds a pending request from Carol.\<close>

definition bob :: user where
  "bob = \<lparr>u_id = 2, username = ''bob'', steamId = ''s-2'', passwordHash = ''$2a$10$terces'',
           createdAt = 11, lastLogin = None, friends = [],
           friendRequests = [\<lparr>fr_id = 60, fr_from = 3, fr_to = Some 2, fr_status = ''pending''\<rparr>],
           faction = ''LONER'', isOnline = False\<rparr>"

definition carol :: user where
  "carol = \<lparr>u_id = 3, username = ''carol'', steamId = ''s-3'', passwordHash = ''$2a$10$x'',
             createdAt = 12, lastLogin = None, friends = [],
             friendRequests = [], faction = ''DUTY'', isOnline = False\<rparr>"

definition db_server :: db where
  "db_server = \<lparr>db_users = [alice, bob, carol], db_messages = [], db_notes = []\<rparr>"

text \<open>
  Erin holds four requests: one accepted, one declined, and two pending, the second of
  them from a user who is gone.
\<close>

definition erin :: user where
  "erin = \<lparr>u_id = 4, username = ''erin'', steamId = ''s-4'', passwordHash = ''$2a$10$y'',
            createdAt = 13, lastLogin = None, friends = [1],
            friendRequests =
              [\<lparr>fr_id = 70, fr_from = 1, fr_to = Some 4, fr_status = ''accepted''\<rparr>,
               \<lparr>fr_id = 71, fr_from = 3, fr_to = Some 4, fr_status = ''pending''\<rparr>,
               \<lparr>fr_id = 72, fr_from = 2, fr_to = Some 4, fr_status = ''declined''\<rparr>,
               \<lparr>fr_id = 73, fr_from = 99, fr_to = Some 4, fr_status = ''pending''\<rparr>],
            faction = ''FREEDOM'', isOnline = True\<rparr>"

definition db_erin :: db where
  "db_erin = \<lparr>db_users = [alice, bob, carol, erin], db_messages = [], db_notes = []\<rparr>"

definition spoofed_body :: message_body where
  "spoofed_body = \<lparr>mb_userId = Some 3, mb_recipientId = None, mb_content = Some ''hello'',
                    mb_isAnonymous = None\<rparr>"

definition dave_body :: register_body where
  "dave_body = \<lparr>rb_username = Some ''dave'', rb_password = Some ''hunter2'', rb_steamId = Some ''s-4''\<rparr>"

definition dave :: user where
  "dave = \<lparr>u_id = 7, username = ''dave'', steamId = ''s-4'', passwordHash = ''$2a$10$2retnuh'',
            createdAt = 1000, lastLogin = None, friends = [],
            friendRequests = [], faction = ''LONER'', isOnline = False\<rparr>"

text \<open>
  Twenty-five broadcast messages, posted at times 0 to 24, and two direct messages
  between Alice and Bob.
\<close>

definition broadcast :: "nat \<Rightarrow> message" where
  "broadcast i = \<lparr>m_id = 100 + i, m_userId = 1, m_recipientId = None, m_content = ''hi'',
                   m_isAnonymous = False, m_createdAt = i\<rparr>"

definition direct_ab :: message where
  "direct_ab = \<lparr>m_id = 200, m_userId = 1, m_recipientId = Some 2, m_content = ''ping'',
                 m_isAnonymous = False, m_createdAt = 30\<rparr>"

definition direct_ba :: message where
  "direct_ba = \<lparr>m_id = 201, m_userId = 2, m_recipientId = Some 1, m_content = ''pong'',
                 m_isAnonymous = False, m_createdAt = 31\<rparr>"

definition db_25 :: db where
  "db_25 = db_server\<lparr>db_messages := map broadcast [0..<25] @ [direct_ab, direct_ba]\<rparr>"

text \<open>What an anonymous caller posts to \<^verbatim>\<open>/users\<close>.\<close>

definition mallory_fields :: user_fields where
  "mallory_fields = \<lparr>in_username = Some ''mallory'', in_steamId = Some ''s-9'',
                       in_passwordHash = Some ''anything'',
                       in_friends = [1, 2], in_faction = None, in_isOnline = Some True\<rparr>"

definition mallory :: user where
  "mallory = \<lparr>u_id = 7, username = ''mallory'', steamId = ''s-9'', passwordHash = ''anything'',
               createdAt = 1000, lastLogin = None, friends = [1, 2],
               friendRequests = [], faction = ''LONER'', isOnline = True\<rparr>"

section \<open>Loading the two files\<close>

lemma load_prelude:
  "load node_globals [] (prelude @ rest) =
     load ([''User'', ''PORT'', ''app'', ''jwt'', ''bcrypt'', ''mongoose'', ''express'']
             @ node_globals) [] rest"
  by (simp add: prelude_def node_globals_def)

text \<open>\<^verbatim>\<open>server.js\<close> loads and registers its sixteen routes.\<close>

lemma server_js_loads:
  "load node_globals [] server_js =
     Inr [''POST /auth/register'', ''POST /auth/login'', ''POST /auth/logout'', ''POST /users'',
          ''GET /users/:id'', ''GET /messages/global'', ''GET /messages/direct'',
          ''POST /messages'', ''GET /notes/:userId'', ''POST /notes'', ''PUT /notes/:id'',
          ''DELETE /notes/:id'', ''POST /friend-requests'', ''POST /friend-requests/:id/accept'',
          ''POST /friend-requests/:id/decline'', ''GET /friend-requests'']"
  unfolding server_js_def load_prelude by (simp add: node_globals_def)

text \<open>
  The second file throws while its \<^verbatim>\<open>Message\<close> model is built: no route of it, the
  respond route included, is ever registered.
\<close>

lemma part_000_throws:
  "load node_globals [] part_000 = Inl ReferenceError"
  unfolding part_000_def load_prelude by (simp add: node_globals_def)

lemma respond_not_registered:
  "serve e h (PostFriendRequestsRespond requestId status) d = ((404, NotFoundPage), d)"
  by (simp add: serve_def)

section \<open>Properties of the auth gateway\<close>

lemma jwt_verify_issued:
  "jwt_verify (jwt_sign_1h i n s t0) s t =
     (if t0 + 3600 \<le> t then Inl TokenExpiredError else Inr (jwt_sign_1h i n s t0))"
  by (simp add: jwt_verify_def jwt_sign_1h_def)

lemma authenticate_Inr_iff:
  "authenticate e h = Inr d \<longleftrightarrow>
     h = Token d \<and> jwt_key d = env_secret e \<and>
     (case jwt_exp d of None \<Rightarrow> True | Some x \<Rightarrow> env_now e < x)"
  by (cases h) (auto simp: authenticate_def jwt_verify_def split: option.splits sum.splits if_splits)

text \<open>
  C7. \<^verbatim>\<open>authenticate\<close> answers 401 when no token is sent and 403 when the token does not
  parse, is signed with another key, or is a token of \<^verbatim>\<open>generateToken\<close> verified 3600
  seconds or more after it was issued. A token of \<^verbatim>\<open>generateToken\<close> verified before that
  is accepted, and whenever the middleware accepts, what the handler receives is the
  payload of the presented token (for an issued token: the user's id and username).
\<close>

theorem authenticate_gateway:
  "authenticate e Absent = Inl (401, Error ''No token provided'')
   \<and> authenticate e Malformed = Inl (403, Error ''Invalid token'')
   \<and> (jwt_key tok \<noteq> env_secret e \<longrightarrow>
        authenticate e (Token tok) = Inl (403, Error ''Invalid token''))
   \<and> (env_secret e0 = env_secret e \<and> env_now e0 + 3600 \<le> env_now e \<longrightarrow>
        authenticate e (Token (generateToken e0 u)) = Inl (403, Error ''Invalid token''))
   \<and> (env_secret e0 = env_secret e \<and> env_now e < env_now e0 + 3600 \<longrightarrow>
        (\<exists>d. authenticate e (Token (generateToken e0 u)) = Inr d
             \<and> jwt_id d = u_id u \<and> jwt_username d = username u))
   \<and> (authenticate e h = Inr d \<longrightarrow> h = Token d \<and> jwt_key d = env_secret e)"
proof -
  have absent: "authenticate e Absent = Inl (401, Error ''No token provided'')"
    and malformed: "authenticate e Malformed = Inl (403, Error ''Invalid token'')"
    by (simp_all add: authenticate_def)
  have forged: "jwt_key tok \<noteq> env_secret e \<longrightarrow>
      authenticate e (Token tok) = Inl (403, Error ''Invalid token'')"
    by (simp add: authenticate_def jwt_verify_def)
  have expired: "env_secret e0 = env_secret e \<and> env_now e0 + 3600 \<le> env_now e \<longrightarrow>
      authenticate e (Token (generateToken e0 u)) = Inl (403, Error ''Invalid token'')"
    by (simp add: authenticate_def generateToken_def jwt_verify_issued)
  have fresh: "env_secret e0 = env_secret e \<and> env_now e < env_now e0 + 3600 \<longrightarrow>
      (\<exists>d. authenticate e (Token (generateToken e0 u)) = Inr d
           \<and> jwt_id d = u_id u \<and> jwt_username d = username u)"
    by (simp add: authenticate_def generateToken_def jwt_verify_issued)
       (simp add: jwt_sign_1h_def)
  have only: "authenticate e h = Inr d \<longrightarrow> h = Token d \<and> jwt_key d = env_secret e"
    by (simp add: authenticate_Inr_iff)
  from absent malformed forged expired fresh only show ?thesis
    by blast
qed

theorem authenticate_gateway_witness:
  "authenticate (env0\<lparr>env_now := 4600\<rparr>) (Token (generateToken env0 alice))
     = Inl (403, Error ''Invalid token'')
   \<and> authenticate (env0\<lparr>env_now := 4599\<rparr>) (Token (generateToken env0 alice))
     = Inr (generateToken env0 alice)
   \<and> jwt_id (generateToken env0 alice) = 1
   \<and> jwt_username (generateToken env0 alice) = ''alice''
   \<and> authenticate env0 (Token ((generateToken env0 alice)\<lparr>jwt_key := ''guess''\<rparr>))
     = Inl (403, Error ''Invalid token'')"
proof -
  let ?tok = "generateToken env0 alice"
  note g = authenticate_gateway
  have late: "authenticate (env0\<lparr>env_now := 4600\<rparr>) (Token ?tok) = Inl (403, Error ''Invalid token'')"
    using g [of "env0\<lparr>env_now := 4600\<rparr>" ?tok env0 alice Absent ?tok]
    by (simp add: env0_def)
  obtain d where d: "authenticate (env0\<lparr>env_now := 4599\<rparr>) (Token ?tok) = Inr d"
      "jwt_id d = u_id alice" "jwt_username d = username alice"
    using g [of "env0\<lparr>env_now := 4599\<rparr>" ?tok env0 alice Absent ?tok]
    by (auto simp: env0_def)
  have "Token ?tok = Token d"
    using g [of "env0\<lparr>env_now := 4599\<rparr>" ?tok env0 alice "Token ?tok" d] d(1)
    by blast
  then have eq: "d = ?tok" by simp
  have forged: "authenticate env0 (Token (?tok\<lparr>jwt_key := ''guess''\<rparr>))
      = Inl (403, Error ''Invalid token'')"
    using g [of env0 "?tok\<lparr>jwt_key := ''guess''\<rparr>" env0 alice Absent ?tok]
    by (simp add: env0_def)
  from late d eq forged show ?thesis
    by (simp add: alice_def)
qed

subsection \<open>Issued tokens\<close>

lemma authenticate_own_token:
  "authenticate e (Token (generateToken e u)) = Inr (generateToken e u)"
  by (simp add: authenticate_def generateToken_def jwt_verify_issued)

lemma generateToken_payload:
  "jwt_id (generateToken e u) = u_id u" "jwt_username (generateToken e u) = username u"
  by (simp_all add: generateToken_def jwt_sign_1h_def)

section \<open>Lookups after a write\<close>

lemma find_update_first_id:
  assumes "\<And>x. k (f x) = k x"
  shows "find (\<lambda>x. k x = j) (update_first (\<lambda>x. k x = i) f xs) =
           (if j = i then map_option f (find (\<lambda>x. k x = i) xs) else find (\<lambda>x. k x = j) xs)"
  using assms by (induction xs) auto

lemma findById_update_user:
  assumes "\<And>u. u_id (f u) = u_id u"
  shows "findById j (db_users (update_user i f d)) =
           (if j = i then map_option f (findById i (db_users d)) else findById j (db_users d))"
  using find_update_first_id [of u_id f j i "db_users d"] assms
  by (simp add: findById_def update_user_def)

lemma findById_id: "findById i us = Some u \<Longrightarrow> u_id u = i"
  by (auto simp: findById_def find_Some_iff)

lemma findById_save_status:
  "findById j (db_users (save_status i rid s d)) =
     (if j = i then map_option (\<lambda>u. u\<lparr>friendRequests := set_status rid s (friendRequests u)\<rparr>)
                      (findById i (db_users d))
      else findById j (db_users d))"
  unfolding save_status_def by (rule findById_update_user) simp

lemma findById_push_friend:
  "findById j (db_users (push_friend i x d)) =
     (if j = i then map_option (\<lambda>u. u\<lparr>friends := friends u @ [x]\<rparr>) (findById i (db_users d))
      else findById j (db_users d))"
  unfolding push_friend_def by (rule findById_update_user) simp

lemma find_set_status:
  "find (\<lambda>r. fr_id r = j) (set_status rid s rs) =
     (if j = rid then map_option (\<lambda>r. r\<lparr>fr_status := s\<rparr>) (find (\<lambda>r. fr_id r = rid) rs)
      else find (\<lambda>r. fr_id r = j) rs)"
  unfolding set_status_def by (rule find_update_first_id) simp

lemma map_fr_id_set_status: "map fr_id (set_status rid s rs) = map fr_id rs"
  unfolding set_status_def by (induction rs) simp_all

lemma map_friends_update_first:
  assumes "\<And>u. friends (f u) = friends u"
  shows "map friends (update_first p f us) = map friends us"
  using assms by (induction us) auto

lemma map_u_id_update_first:
  assumes "\<And>u. u_id (f u) = u_id u"
  shows "map u_id (update_first p f us) = map u_id us"
  using assms by (induction us) auto

text \<open>
  Changing the first record with a given key from one that passes a filter to one that
  does not takes exactly that record out of the filtered list.
\<close>

lemma filter_update_first:
  assumes "find (\<lambda>x. k x = i) xs = Some r" and "P r" and "\<not> P (f r)"
  shows "filter P (update_first (\<lambda>x. k x = i) f xs) = remove1 r (filter P xs)"
  using assms
proof (induction xs)
  case Nil
  then show ?case by simp
next
  case (Cons x xs)
  show ?case
  proof (cases "k x = i")
    case True
    with Cons.prems have "x = r" by simp
    with True Cons.prems show ?thesis by simp
  next
    case False
    with Cons.prems have found: "find (\<lambda>x. k x = i) xs = Some r" by simp
    then have "k r = i" by (auto simp: find_Some_iff)
    with False have "x \<noteq> r" by auto
    with False Cons.IH [OF found Cons.prems(2,3)] show ?thesis by simp
  qed
qed

lemma set_status_not_listed:
  assumes "distinct (map fr_id rs)" and "s \<noteq> ''pending''"
      and "find (\<lambda>r. fr_id r = rid) rs = Some r"
  shows "rid \<notin> set (map fr_id (filter (\<lambda>r. fr_status r = ''pending'') (set_status rid s rs)))"
  using assms
proof (induction rs)
  case Nil
  then show ?case by simp
next
  case (Cons x rs)
  show ?case
  proof (cases "fr_id x = rid")
    case True
    with Cons.prems(1) have "rid \<notin> set (map fr_id rs)" by auto
    then have "rid \<notin> set (map fr_id (filter (\<lambda>r. fr_status r = ''pending'') rs))" by auto
    with True Cons.prems(2) show ?thesis by (simp add: set_status_def)
  next
    case False
    with Cons show ?thesis by (simp add: set_status_def)
  qed
qed

section \<open>Answering a friend request\<close>

lemma serve_accept_decline:
  assumes "authenticate e h = Inr ident"
  shows "serve e h (PostFriendRequestsAccept rid) d = post_friend_requests_accept ident rid d"
    and "serve e h (PostFriendRequestsDecline rid) d = post_friend_requests_decline ident rid d"
    and "serve e h GetFriendRequests d = get_friend_requests ident d"
  using assms by (simp_all add: serve_def protected_def)

lemma listing:
  assumes "findById (jwt_id ident) (db_users d) = Some u"
  shows "get_friend_requests ident d =
           ((200, RequestsJson
                    (map (\<lambda>r. (r, populate_sender (db_users d) (fr_from r)))
                       (filter (\<lambda>r. fr_status r = ''pending'') (friendRequests u)))), d)"
  using assms by (simp add: get_friend_requests_def)

lemma listing_requests:
  assumes "findById (jwt_id ident) (db_users d) = Some u"
  shows "\<exists>rows. get_friend_requests ident d = ((200, RequestsJson rows), d)
         \<and> map fst rows = filter (\<lambda>r. fr_status r = ''pending'') (friendRequests u)"
  using assms by (simp add: listing comp_def)

text \<open>
  The pending listing before and after the status of a pending request changes: the
  request is in the first and exactly it is missing from the second.
\<close>

lemma listing_after_answer:
  assumes before: "findById (jwt_id ident) (db_users d) = Some u"
      and after: "findById (jwt_id ident) (db_users d') = Some u'"
      and answered: "friendRequests u' = set_status rid s (friendRequests u)"
      and r: "find (\<lambda>r. fr_id r = rid) (friendRequests u) = Some r"
      and pending: "fr_status r = ''pending''" and s: "s \<noteq> ''pending''"
  shows "\<exists>rows rows'.
           get_friend_requests ident d = ((200, RequestsJson rows), d)
         \<and> r \<in> set (map fst rows)
         \<and> get_friend_requests ident d' = ((200, RequestsJson rows'), d')
         \<and> map fst rows' = remove1 r (map fst rows)
         \<and> (distinct (map fr_id (friendRequests u)) \<longrightarrow> rid \<notin> set (map (fr_id \<circ> fst) rows'))"
proof -
  let ?pending = "\<lambda>r. fr_status r = ''pending''"
  from listing_requests [OF before] obtain rows
    where rows: "get_friend_requests ident d = ((200, RequestsJson rows), d)"
      "map fst rows = filter ?pending (friendRequests u)"
    by blast
  from listing_requests [OF after] obtain rows'
    where rows': "get_friend_requests ident d' = ((200, RequestsJson rows'), d')"
      "map fst rows' = filter ?pending (friendRequests u')"
    by blast
  have "r \<in> set (friendRequests u)"
    using r by (auto simp: find_Some_iff)
  with pending have listed: "r \<in> set (map fst rows)"
    by (simp add: rows(2))
  have "filter ?pending (set_status rid s (friendRequests u)) = remove1 r (filter ?pending (friendRequests u))"
    unfolding set_status_def using r pending s by (intro filter_update_first) simp_all
  then have removed: "map fst rows' = remove1 r (map fst rows)"
    by (simp add: rows(2) rows'(2) answered)
  have gone: "distinct (map fr_id (friendRequests u)) \<longrightarrow> rid \<notin> set (map (fr_id \<circ> fst) rows')"
  proof
    assume "distinct (map fr_id (friendRequests u))"
    from set_status_not_listed [OF this s r]
    have "rid \<notin> set (map fr_id (map fst rows'))"
      by (simp add: rows'(2) answered)
    then show "rid \<notin> set (map (fr_id \<circ> fst) rows')" by simp
  qed
  from rows(1) listed rows'(1) removed gone show ?thesis by blast
qed

lemma accept_handler:
  assumes ub: "findById B (db_users d) = Some ub"
      and r: "find (\<lambda>r. fr_id r = rid) (friendRequests ub) = Some r"
      and pending: "fr_status r = ''pending''"
      and sender: "fr_from r = A"
      and ua: "findById A (db_users d) = Some ua"
      and ident: "jwt_id ident = B"
  shows "post_friend_requests_accept ident rid d =
           ((200, Info ''Friend request accepted.''),
            push_friend A B
              (update_user B
                 (\<lambda>u. u\<lparr>friends := friends u @ [A],
                         friendRequests := set_status rid ''accepted'' (friendRequests u)\<rparr>) d))"
proof -
  have "u_id ub = B" "u_id ua = A" "fr_id r = rid"
    using ub ua r by (auto simp: findById_id find_Some_iff)
  with ub r pending sender ua ident show ?thesis
    by (simp add: post_friend_requests_accept_def Let_def)
qed

lemma decline_handler:
  assumes ub: "findById B (db_users d) = Some ub"
      and r: "find (\<lambda>r. fr_id r = rid) (friendRequests ub) = Some r"
      and pending: "fr_status r = ''pending''"
      and ident: "jwt_id ident = B"
  shows "post_friend_requests_decline ident rid d =
           ((200, Info ''Friend request declined.''), save_status B rid ''declined'' d)"
proof -
  have "u_id ub = B" "fr_id r = rid"
    using ub r by (auto simp: findById_id find_Some_iff)
  with ub r pending ident show ?thesis
    by (simp add: post_friend_requests_decline_def)
qed

text \<open>
  C1 as the code has it. When the caller B holds a pending request from an existing user
  A and accepts it, the route answers 200; in the resulting database A is in B's friend
  list and B is in A's; the request's status is \<^verbatim>\<open>accepted\<close>; the record stays in B's
  request list, which holds the same ids as before; and B's pending listing, which
  showed the request, is the old listing without it (with distinct request ids no row of
  it has the request's id).
\<close>

theorem accept_request:
  assumes auth: "authenticate e h = Inr ident"
      and ident: "jwt_id ident = B"
      and ub: "findById B (db_users d) = Some ub"
      and r: "find (\<lambda>r. fr_id r = rid) (friendRequests ub) = Some r"
      and pending: "fr_status r = ''pending''"
      and sender: "fr_from r = A"
      and ua: "findById A (db_users d) = Some ua"
  shows "\<exists>d' ub' ua' rows rows'.
           serve e h (PostFriendRequestsAccept rid) d
             = ((200, Info ''Friend request accepted.''), d')
         \<and> findById B (db_users d') = Some ub' \<and> A \<in> set (friends ub')
         \<and> findById A (db_users d') = Some ua' \<and> B \<in> set (friends ua')
         \<and> find (\<lambda>r. fr_id r = rid) (friendRequests ub') = Some (r\<lparr>fr_status := ''accepted''\<rparr>)
         \<and> map fr_id (friendRequests ub') = map fr_id (friendRequests ub)
         \<and> serve e h GetFriendRequests d = ((200, RequestsJson rows), d)
         \<and> r \<in> set (map fst rows)
         \<and> serve e h GetFriendRequests d' = ((200, RequestsJson rows'), d')
         \<and> map fst rows' = remove1 r (map fst rows)
         \<and> (distinct (map fr_id (friendRequests ub)) \<longrightarrow> rid \<notin> set (map (fr_id \<circ> fst) rows'))"
proof -
  define d1 where "d1 = update_user B
      (\<lambda>u. u\<lparr>friends := friends u @ [A],
              friendRequests := set_status rid ''accepted'' (friendRequests u)\<rparr>) d"
  define d' where "d' = push_friend A B d1"
  have run: "serve e h (PostFriendRequestsAccept rid) d
      = ((200, Info ''Friend request accepted.''), d')"
    unfolding d'_def d1_def serve_accept_decline(1) [OF auth]
    by (rule accept_handler [OF ub r pending sender ua ident])
  have B1: "findById j (db_users d1) =
      (if j = B then map_option (\<lambda>u. u\<lparr>friends := friends u @ [A],
              friendRequests := set_status rid ''accepted'' (friendRequests u)\<rparr>)
                (findById B (db_users d))
       else findById j (db_users d))" for j
    unfolding d1_def by (rule findById_update_user) simp
  obtain ub' where ub': "findById B (db_users d') = Some ub'" "A \<in> set (friends ub')"
      "friendRequests ub' = set_status rid ''accepted'' (friendRequests ub)"
    using ub by (cases "A = B") (auto simp: d'_def findById_push_friend B1)
  obtain ua' where ua': "findById A (db_users d') = Some ua'" "B \<in> set (friends ua')"
    using ua ub by (cases "A = B") (auto simp: d'_def findById_push_friend B1)
  have status: "find (\<lambda>r. fr_id r = rid) (friendRequests ub') = Some (r\<lparr>fr_status := ''accepted''\<rparr>)"
    using r by (simp add: ub'(3) find_set_status)
  have kept: "map fr_id (friendRequests ub') = map fr_id (friendRequests ub)"
    by (simp add: ub'(3) map_fr_id_set_status)
  have "\<exists>rows rows'.
           get_friend_requests ident d = ((200, RequestsJson rows), d)
         \<and> r \<in> set (map fst rows)
         \<and> get_friend_requests ident d' = ((200, RequestsJson rows'), d')
         \<and> map fst rows' = remove1 r (map fst rows)
         \<and> (distinct (map fr_id (friendRequests ub)) \<longrightarrow> rid \<notin> set (map (fr_id \<circ> fst) rows'))"
  proof (rule listing_after_answer [OF _ _ ub'(3) r pending])
    show "findById (jwt_id ident) (db_users d) = Some ub" using ub ident by simp
    show "findById (jwt_id ident) (db_users d') = Some ub'" using ub'(1) ident by simp
    show "''accepted'' \<noteq> ''pending''" by simp
  qed
  then obtain rows rows' where
      "serve e h GetFriendRequests d = ((200, RequestsJson rows), d)"
      "r \<in> set (map fst rows)"
      "serve e h GetFriendRequests d' = ((200, RequestsJson rows'), d')"
      "map fst rows' = remove1 r (map fst rows)"
      "distinct (map fr_id (friendRequests ub)) \<longrightarrow> rid \<notin> set (map (fr_id \<circ> fst) rows')"
    unfolding serve_accept_decline(3) [OF auth] by blast
  with run ub'(1,2) ua' status kept show ?thesis by blast
qed

text \<open>
  C1 as stated fails where it says the record is removed: Bob accepts his one request,
  from Carol; the route answers 200 and his request list still holds the record, now
  with status \<^verbatim>\<open>accepted\<close>.
\<close>

theorem accept_keeps_record:
  "serve env0 (Token (generateToken env0 bob)) (PostFriendRequestsAccept 60) db_server
     = ((200, Info ''Friend request accepted.''),
        db_server\<lparr>db_users :=
          [alice,
           bob\<lparr>friends := [3],
               friendRequests := [\<lparr>fr_id = 60, fr_from = 3, fr_to = Some 2, fr_status = ''accepted''\<rparr>]\<rparr>,
           carol\<lparr>friends := [2]\<rparr>]\<rparr>)
   \<and> friendRequests bob = [\<lparr>fr_id = 60, fr_from = 3, fr_to = Some 2, fr_status = ''pending''\<rparr>]"
proof -
  have auth: "authenticate env0 (Token (generateToken env0 bob)) = Inr (generateToken env0 bob)"
    by (rule authenticate_own_token)
  have "post_friend_requests_accept (generateToken env0 bob) 60 db_server
      = ((200, Info ''Friend request accepted.''),
        db_server\<lparr>db_users :=
          [alice,
           bob\<lparr>friends := [3],
               friendRequests := [\<lparr>fr_id = 60, fr_from = 3, fr_to = Some 2, fr_status = ''accepted''\<rparr>]\<rparr>,
           carol\<lparr>friends := [2]\<rparr>]\<rparr>)"
    by (simp add: post_friend_requests_accept_def generateToken_payload findById_def Let_def
          push_friend_def update_user_def set_status_def db_server_def alice_def bob_def carol_def)
  then show ?thesis
    by (simp add: serve_accept_decline(1) [OF auth]) (simp add: bob_def)
qed

theorem accept_request_witness:
  "\<exists>d' ub' ua' rows'.
      serve env0 (Token (generateToken env0 bob)) (PostFriendRequestsAccept 60) db_server
        = ((200, Info ''Friend request accepted.''), d')
    \<and> findById 2 (db_users d') = Some ub' \<and> 3 \<in> set (friends ub')
    \<and> findById 3 (db_users d') = Some ua' \<and> 2 \<in> set (friends ua')
    \<and> map fr_status (friendRequests ub') = [''accepted'']
    \<and> serve env0 (Token (generateToken env0 bob)) GetFriendRequests d'
        = ((200, RequestsJson rows'), d')
    \<and> rows' = []"
proof -
  let ?tok = "generateToken env0 bob"
  let ?r = "\<lparr>fr_id = 60, fr_from = 3, fr_to = Some 2, fr_status = ''pending''\<rparr>"
  have auth: "authenticate env0 (Token ?tok) = Inr ?tok"
    by (rule authenticate_own_token)
  have ident: "jwt_id ?tok = 2"
    by (simp add: generateToken_payload bob_def)
  have ub: "findById 2 (db_users db_server) = Some bob"
    by (simp add: findById_def db_server_def alice_def bob_def)
  have r: "find (\<lambda>r. fr_id r = 60) (friendRequests bob) = Some ?r"
    by (simp add: bob_def)
  have pending: "fr_status ?r = ''pending''" and sender: "fr_from ?r = 3"
    by simp_all
  have ua: "findById 3 (db_users db_server) = Some carol"
    by (simp add: findById_def db_server_def alice_def bob_def carol_def)
  from accept_request [OF auth ident ub r pending sender ua]
  obtain d' ub' ua' rows rows' where
      run: "serve env0 (Token ?tok) (PostFriendRequestsAccept 60) db_server
        = ((200, Info ''Friend request accepted.''), d')"
      and B: "findById 2 (db_users d') = Some ub'" "3 \<in> set (friends ub')"
      and A: "findById 3 (db_users d') = Some ua'" "2 \<in> set (friends ua')"
      and status: "find (\<lambda>r. fr_id r = 60) (friendRequests ub') = Some (?r\<lparr>fr_status := ''accepted''\<rparr>)"
      and kept: "map fr_id (friendRequests ub') = map fr_id (friendRequests bob)"
      and before: "serve env0 (Token ?tok) GetFriendRequests db_server = ((200, RequestsJson rows), db_server)"
      and after: "serve env0 (Token ?tok) GetFriendRequests d' = ((200, RequestsJson rows'), d')"
      and removed: "map fst rows' = remove1 ?r (map fst rows)"
    by blast
  from kept obtain x where one: "friendRequests ub' = [x]"
    by (auto simp: bob_def map_eq_Cons_conv)
  with status have "x = ?r\<lparr>fr_status := ''accepted''\<rparr>"
    by (simp split: if_splits)
  with one have statuses: "map fr_status (friendRequests ub') = [''accepted'']"
    by simp
  have "map fst rows = [?r]"
    using before ub ident
    by (simp add: serve_accept_decline(3) [OF auth] listing [where u = bob] comp_def)
       (auto simp: bob_def)
  with removed have "rows' = []" by simp
  with run B A statuses after show ?thesis
    apply -
    apply (intro exI conjI)
           apply assumption+
    done
qed

text \<open>
  C4. When the caller B holds a pending request and declines it, the route answers 200;
  B's pending listing, which showed the request, is the old listing without it (with
  distinct request ids no row of it has the request's id); and every user's friend list
  is what it was: B's, the sender's, and everyone else's. The record stays in B's
  request list with status \<^verbatim>\<open>declined\<close>.
\<close>

theorem decline_request:
  assumes auth: "authenticate e h = Inr ident"
      and ident: "jwt_id ident = B"
      and ub: "findById B (db_users d) = Some ub"
      and r: "find (\<lambda>r. fr_id r = rid) (friendRequests ub) = Some r"
      and pending: "fr_status r = ''pending''"
  shows "\<exists>d' ub' rows rows'.
           serve e h (PostFriendRequestsDecline rid) d
             = ((200, Info ''Friend request declined.''), d')
         \<and> serve e h GetFriendRequests d = ((200, RequestsJson rows), d)
         \<and> r \<in> set (map fst rows)
         \<and> serve e h GetFriendRequests d' = ((200, RequestsJson rows'), d')
         \<and> map fst rows' = remove1 r (map fst rows)
         \<and> (distinct (map fr_id (friendRequests ub)) \<longrightarrow> rid \<notin> set (map (fr_id \<circ> fst) rows'))
         \<and> map u_id (db_users d') = map u_id (db_users d)
         \<and> map friends (db_users d') = map friends (db_users d)
         \<and> findById B (db_users d') = Some ub' \<and> friends ub' = friends ub
         \<and> map_option friends (findById (fr_from r) (db_users d'))
             = map_option friends (findById (fr_from r) (db_users d))
         \<and> find (\<lambda>r. fr_id r = rid) (friendRequests ub') = Some (r\<lparr>fr_status := ''declined''\<rparr>)"
proof -
  define d' where "d' = save_status B rid ''declined'' d"
  have run: "serve e h (PostFriendRequestsDecline rid) d
      = ((200, Info ''Friend request declined.''), d')"
    unfolding d'_def serve_accept_decline(2) [OF auth]
    by (rule decline_handler [OF ub r pending ident])
  have ids: "map u_id (db_users d') = map u_id (db_users d)"
    by (simp add: d'_def save_status_def update_user_def map_u_id_update_first)
  have frame: "map friends (db_users d') = map friends (db_users d)"
    by (simp add: d'_def save_status_def update_user_def map_friends_update_first)
  obtain ub' where ub': "findById B (db_users d') = Some ub'" "friends ub' = friends ub"
      "friendRequests ub' = set_status rid ''declined'' (friendRequests ub)"
    using ub by (simp add: d'_def findById_save_status)
  have other: "map_option friends (findById (fr_from r) (db_users d'))
      = map_option friends (findById (fr_from r) (db_users d))"
    by (simp add: d'_def findById_save_status option.map_comp comp_def)
  have status: "find (\<lambda>r. fr_id r = rid) (friendRequests ub') = Some (r\<lparr>fr_status := ''declined''\<rparr>)"
    using r by (simp add: ub'(3) find_set_status)
  have "\<exists>rows rows'.
           get_friend_requests ident d = ((200, RequestsJson rows), d)
         \<and> r \<in> set (map fst rows)
         \<and> get_friend_requests ident d' = ((200, RequestsJson rows'), d')
         \<and> map fst rows' = remove1 r (map fst rows)
         \<and> (distinct (map fr_id (friendRequests ub)) \<longrightarrow> rid \<notin> set (map (fr_id \<circ> fst) rows'))"
  proof (rule listing_after_answer [OF _ _ ub'(3) r pending])
    show "findById (jwt_id ident) (db_users d) = Some ub" using ub ident by simp
    show "findById (jwt_id ident) (db_users d') = Some ub'" using ub'(1) ident by simp
    show "''declined'' \<noteq> ''pending''" by simp
  qed
  then obtain rows rows' where
      "serve e h GetFriendRequests d = ((200, RequestsJson rows), d)"
      "r \<in> set (map fst rows)"
      "serve e h GetFriendRequests d' = ((200, RequestsJson rows'), d')"
      "map fst rows' = remove1 r (map fst rows)"
      "distinct (map fr_id (friendRequests ub)) \<longrightarrow> rid \<notin> set (map (fr_id \<circ> fst) rows')"
    unfolding serve_accept_decline(3) [OF auth] by blast
  with run ids frame ub'(1,2) other status show ?thesis by blast
qed

theorem decline_request_witness:
  "\<exists>d' rows'.
      serve env0 (Token (generateToken env0 erin)) (PostFriendRequestsDecline 71) db_erin
        = ((200, Info ''Friend request declined.''), d')
    \<and> map friends (db_users db_erin) = [[], [], [], [1]]
    \<and> map friends (db_users d') = [[], [], [], [1]]
    \<and> serve env0 (Token (generateToken env0 erin)) GetFriendRequests d'
        = ((200, RequestsJson rows'), d')
    \<and> map (fr_id \<circ> fst) rows' = [73]"
proof -
  let ?tok = "generateToken env0 erin"
  let ?r = "\<lparr>fr_id = 71, fr_from = 3, fr_to = Some 4, fr_status = ''pending''\<rparr>"
  have auth: "authenticate env0 (Token ?tok) = Inr ?tok"
    by (rule authenticate_own_token)
  have ident: "jwt_id ?tok = 4"
    by (simp add: generateToken_payload erin_def)
  have ub: "findById 4 (db_users db_erin) = Some erin"
    by (simp add: findById_def db_erin_def alice_def bob_def carol_def erin_def)
  have r: "find (\<lambda>r. fr_id r = 71) (friendRequests erin) = Some ?r"
    by (simp add: erin_def)
  have pending: "fr_status ?r = ''pending''"
    by simp
  have friends: "map friends (db_users db_erin) = [[], [], [], [1]]"
    by (simp add: db_erin_def alice_def bob_def carol_def erin_def)
  from decline_request [OF auth ident ub r pending]
  obtain d' rows rows' where
      run: "serve env0 (Token ?tok) (PostFriendRequestsDecline 71) db_erin
        = ((200, Info ''Friend request declined.''), d')"
      and before: "serve env0 (Token ?tok) GetFriendRequests db_erin = ((200, RequestsJson rows), db_erin)"
      and after: "serve env0 (Token ?tok) GetFriendRequests d' = ((200, RequestsJson rows'), d')"
      and removed: "map fst rows' = remove1 ?r (map fst rows)"
      and frame: "map friends (db_users d') = map friends (db_users db_erin)"
    by blast
  have "map fst rows = [?r, \<lparr>fr_id = 73, fr_from = 99, fr_to = Some 4, fr_status = ''pending''\<rparr>]"
    using before ub ident
    by (simp add: serve_accept_decline(3) [OF auth] listing [where u = erin] comp_def)
       (auto simp: erin_def)
  with removed have "map fst rows' = [\<lparr>fr_id = 73, fr_from = 99, fr_to = Some 4, fr_status = ''pending''\<rparr>]"
    by simp
  then have "map (fr_id \<circ> fst) rows' = [73]"
    by (simp flip: map_map)
  with run friends frame after show ?thesis by auto
qed

section \<open>Posting a message\<close>

lemma serve_post_messages:
  "authenticate e h = Inr ident \<Longrightarrow>
   serve e h (PostMessages body) d = post_messages e ident body d"
  by (simp add: serve_def protected_def)

lemma post_messages_overrides:
  "post_messages e ident (body\<lparr>mb_userId := x\<rparr>) d = post_messages e ident body d"
  by (simp add: post_messages_def)

lemma new_Message_author:
  "new_Message e obj = Inr m \<Longrightarrow> mb_userId obj = Some (m_userId m)"
  by (auto simp: new_Message_def split: option.splits if_splits)

lemma post_messages_result:
  assumes "post_messages e ident body d = ((st, pl), d')"
  shows "(st = 400 \<and> d' = d) \<or>
         (\<exists>m. st = 201 \<and> pl = MessageJson m \<and> db_messages d' = db_messages d @ [m]
              \<and> m_userId m = jwt_id ident)"
proof (cases "new_Message e (body\<lparr>mb_userId := Some (jwt_id ident)\<rparr>)")
  case (Inl err)
  with assms show ?thesis by (simp add: post_messages_def)
next
  case (Inr m)
  from new_Message_author [OF Inr] have author: "m_userId m = jwt_id ident" by simp
  show ?thesis
  proof (cases "insert_message m d")
    case (Inl err)
    with Inr assms show ?thesis by (simp add: post_messages_def)
  next
    case (Inr d2)
    then have "db_messages d2 = db_messages d @ [m]"
      by (auto simp: insert_message_def split: if_splits)
    with Inr \<open>new_Message e (body\<lparr>mb_userId := Some (jwt_id ident)\<rparr>) = Inr m\<close> assms author
    show ?thesis by (auto simp: post_messages_def)
  qed
qed

text \<open>
  C10. For a request to \<^verbatim>\<open>POST /messages\<close> that \<^verbatim>\<open>authenticate\<close> lets through, the
  identity is the payload of the presented token; the answer and the resulting database
  do not depend on the body's \<^verbatim>\<open>userId\<close>; and the route either answers 400 and writes
  nothing or answers 201 and appends one message whose author is the token's id.
\<close>

theorem post_messages_author:
  assumes auth: "authenticate e h = Inr ident"
  shows "h = Token ident
       \<and> serve e h (PostMessages (body\<lparr>mb_userId := x\<rparr>)) d
           = serve e h (PostMessages (body\<lparr>mb_userId := y\<rparr>)) d
       \<and> (serve e h (PostMessages body) d = ((st, pl), d') \<longrightarrow>
            (st = 400 \<and> d' = d) \<or>
            (\<exists>m. st = 201 \<and> pl = MessageJson m \<and> db_messages d' = db_messages d @ [m]
                 \<and> m_userId m = jwt_id ident))"
proof -
  have tok: "h = Token ident"
    using auth by (simp add: authenticate_Inr_iff)
  have same: "serve e h (PostMessages (body\<lparr>mb_userId := x\<rparr>)) d
      = serve e h (PostMessages (body\<lparr>mb_userId := y\<rparr>)) d"
    by (simp add: serve_post_messages [OF auth] post_messages_overrides)
  have result: "serve e h (PostMessages body) d = ((st, pl), d') \<longrightarrow>
      (st = 400 \<and> d' = d) \<or>
      (\<exists>m. st = 201 \<and> pl = MessageJson m \<and> db_messages d' = db_messages d @ [m]
           \<and> m_userId m = jwt_id ident)"
    unfolding serve_post_messages [OF auth] using post_messages_result by blast
  from tok same result show ?thesis by blast
qed

theorem post_messages_author_witness:
  "\<exists>m d'. serve env0 (Token (generateToken env0 alice)) (PostMessages spoofed_body) db_server
             = ((201, MessageJson m), d')
        \<and> mb_userId spoofed_body = Some 3
        \<and> m_userId m = 1
        \<and> db_messages d' = [m]
        \<and> serve env0 (Token (generateToken env0 alice))
             (PostMessages (spoofed_body\<lparr>mb_userId := None\<rparr>)) db_server = ((201, MessageJson m), d')"
proof -
  let ?tok = "generateToken env0 alice"
  let ?m = "\<lparr>m_id = 7, m_userId = 1, m_recipientId = None, m_content = ''hello'',
            m_isAnonymous = False, m_createdAt = 1000\<rparr>"
  have auth: "authenticate env0 (Token ?tok) = Inr ?tok"
    by (simp add: authenticate_def jwt_verify_def generateToken_def jwt_sign_1h_def env0_def)
  have ident: "jwt_id ?tok = 1"
    by (simp add: generateToken_def jwt_sign_1h_def alice_def)
  have run: "serve env0 (Token ?tok) (PostMessages spoofed_body) db_server
      = ((201, MessageJson ?m), db_server\<lparr>db_messages := [?m]\<rparr>)"
    unfolding serve_post_messages [OF auth]
    by (simp add: post_messages_def new_Message_def generateToken_payload required_string_def
          insert_message_def spoofed_body_def db_server_def env0_def alice_def)
  note g = post_messages_author [OF auth, where body = spoofed_body
      and x = "Some 3" and y = None and d = db_server and st = 201 and pl = "MessageJson ?m"
      and d' = "db_server\<lparr>db_messages := [?m]\<rparr>"]
  have spoof: "spoofed_body\<lparr>mb_userId := Some 3\<rparr> = spoofed_body"
    by (simp add: spoofed_body_def)
  from g have same: "serve env0 (Token ?tok) (PostMessages (spoofed_body\<lparr>mb_userId := Some 3\<rparr>)) db_server
      = serve env0 (Token ?tok) (PostMessages (spoofed_body\<lparr>mb_userId := None\<rparr>)) db_server"
    by (rule conjunct1 [OF conjunct2])
  have forged: "serve env0 (Token ?tok) (PostMessages (spoofed_body\<lparr>mb_userId := None\<rparr>)) db_server
      = ((201, MessageJson ?m), db_server\<lparr>db_messages := [?m]\<rparr>)"
    using same run by (simp only: spoof)
  from g have "(201 = (400::nat) \<and> db_server\<lparr>db_messages := [?m]\<rparr> = db_server) \<or>
      (\<exists>m. 201 = (201::nat) \<and> MessageJson ?m = MessageJson m
           \<and> db_messages (db_server\<lparr>db_messages := [?m]\<rparr>) = db_messages db_server @ [m]
           \<and> m_userId m = jwt_id ?tok)"
    using run by (rule mp [OF conjunct2 [OF conjunct2]])
  moreover have "(201::nat) \<noteq> 400" by simp
  ultimately obtain m where "MessageJson ?m = MessageJson m" "m_userId m = jwt_id ?tok"
    by blast
  then have "m_userId ?m = jwt_id ?tok" by simp
  with ident have author: "m_userId ?m = 1" by simp
  have stored: "db_messages (db_server\<lparr>db_messages := [?m]\<rparr>) = [?m]"
    and sent: "mb_userId spoofed_body = Some 3"
    by (simp_all add: spoofed_body_def)
  from run forged author stored sent show ?thesis
    by blast
qed


section \<open>Registration\<close>

lemma serve_register: "serve e h (PostAuthRegister body) d = post_auth_register e body d"
  by (simp add: serve_def)

lemma new_User_shape:
  assumes "new_User e obj = Inr u"
  shows "in_username obj = Some (username u) \<and> in_steamId obj = Some (steamId u)
       \<and> in_passwordHash obj = Some (passwordHash u)
       \<and> u_id u = env_oid e \<and> createdAt u = env_now e \<and> lastLogin u = None
       \<and> friends u = in_friends obj \<and> friendRequests u = []
       \<and> faction u = (case in_faction obj of None \<Rightarrow> ''LONER'' | Some f \<Rightarrow> f)
       \<and> isOnline u = (case in_isOnline obj of None \<Rightarrow> False | Some b \<Rightarrow> b)"
  using assms
  by (auto simp: new_User_def Let_def required_string_def split: if_splits option.splits)

lemma insert_user_Inr:
  "insert_user u d = Inr d' \<longleftrightarrow>
     u_id u \<notin> set (map u_id (db_users d)) \<and> username u \<notin> set (map username (db_users d))
     \<and> d' = d\<lparr>db_users := db_users d @ [u]\<rparr>"
  by (auto simp: insert_user_def)

lemma register_duplicate:
  assumes "rb_username body = Some n" and "n \<in> set (map username (db_users d))"
  shows "\<exists>err. post_auth_register e body d = ((400, Caught err), d)"
proof (cases "rb_password body")
  case None
  then show ?thesis by (simp add: post_auth_register_def)
next
  case (Some pw)
  let ?obj = "\<lparr>in_username = rb_username body, in_steamId = rb_steamId body,
      in_passwordHash = Some (env_hash e pw),
      in_friends = [], in_faction = None, in_isOnline = None\<rparr>"
  show ?thesis
  proof (cases "new_User e ?obj")
    case (Inl err)
    with Some show ?thesis by (simp add: post_auth_register_def)
  next
    case (Inr u)
    from new_User_shape [OF Inr] assms(1) have "username u = n" by simp
    with assms(2) have "insert_user u d = Inl DuplicateKeyError"
      by (simp add: insert_user_def)
    with Some Inr show ?thesis by (simp add: post_auth_register_def)
  qed
qed

lemma register_result:
  assumes "post_auth_register e body d = ((st, pl), d')"
  shows "(st = 400 \<and> (\<exists>err. pl = Caught err) \<and> d' = d) \<or>
         (\<exists>pw name sid user.
             rb_password body = Some pw \<and> rb_username body = Some name
           \<and> rb_steamId body = Some sid
           \<and> user = \<lparr>u_id = env_oid e, username = name, steamId = sid,
                      passwordHash = env_hash e pw, createdAt = env_now e,
                      lastLogin = None, friends = [], friendRequests = [],
                      faction = ''LONER'', isOnline = False\<rparr>
           \<and> d' = d\<lparr>db_users := db_users d @ [user]\<rparr>
           \<and> name \<notin> set (map username (db_users d))
           \<and> (if env_secret e = [] then st = 400 \<and> pl = Caught JwtError
               else st = 201 \<and> pl = TokenUser (generateToken e user) user
                  \<and> authenticate e (Token (generateToken e user)) = Inr (generateToken e user)))"
proof (cases "rb_password body")
  case None
  with assms show ?thesis by (auto simp: post_auth_register_def)
next
  case (Some pw)
  let ?obj = "\<lparr>in_username = rb_username body, in_steamId = rb_steamId body,
      in_passwordHash = Some (env_hash e pw),
      in_friends = [], in_faction = None, in_isOnline = None\<rparr>"
  show ?thesis
  proof (cases "new_User e ?obj")
    case (Inl err)
    with Some assms show ?thesis by (auto simp: post_auth_register_def)
  next
    case (Inr u)
    from new_User_shape [OF Inr]
    have u: "u = \<lparr>u_id = env_oid e, username = username u, steamId = steamId u,
        passwordHash = env_hash e pw, createdAt = env_now e,
        lastLogin = None, friends = [], friendRequests = [],
        faction = ''LONER'', isOnline = False\<rparr>"
      and names: "rb_username body = Some (username u)" "rb_steamId body = Some (steamId u)"
      by simp_all
    show ?thesis
    proof (cases "insert_user u d")
      case (Inl err)
      with Some Inr assms show ?thesis by (auto simp: post_auth_register_def)
    next
      case (Inr d2)
      then have d2: "d2 = d\<lparr>db_users := db_users d @ [u]\<rparr>"
        and fresh: "username u \<notin> set (map username (db_users d))"
        by (simp_all add: insert_user_Inr)
      from Some \<open>new_User e ?obj = Inr u\<close> Inr assms
      have "d' = d2"
        and "if env_secret e = [] then st = 400 \<and> pl = Caught JwtError
             else st = 201 \<and> pl = TokenUser (generateToken e u) u
                \<and> authenticate e (Token (generateToken e u)) = Inr (generateToken e u)"
        by (auto simp: post_auth_register_def call_generateToken_def authenticate_own_token
              split: if_splits)
      with Some names u d2 fresh show ?thesis by blast
    qed
  qed
qed

text \<open>
  C6. \<^verbatim>\<open>POST /auth/register\<close> (no token needed) answers 400 and writes nothing when the
  username is already taken. Its result depends on the password only through
  \<^verbatim>\<open>bcrypt.hash\<close>: two passwords with the same hash give the same answer and database.
  Any answer is either a 400 carrying a caught exception and no write, or comes after one
  user was appended whose record holds the submitted username and steam id, the hash of
  the password and schema defaults, and nothing else. In that case, with a secret
  configured, the answer is 201 with a token for that user, one \<^verbatim>\<open>authenticate\<close> accepts,
  and the user; with none, signing throws and the answer is 400.
\<close>

theorem register_contract:
  "(rb_username body = Some n \<and> n \<in> set (map username (db_users d)) \<longrightarrow>
      (\<exists>err. serve e h (PostAuthRegister body) d = ((400, Caught err), d)))
   \<and> (env_hash e p1 = env_hash e p2 \<longrightarrow>
        serve e h (PostAuthRegister (body\<lparr>rb_password := Some p1\<rparr>)) d
        = serve e h (PostAuthRegister (body\<lparr>rb_password := Some p2\<rparr>)) d)
   \<and> (serve e h (PostAuthRegister body) d = ((st, pl), d') \<longrightarrow>
        (st = 400 \<and> (\<exists>err. pl = Caught err) \<and> d' = d) \<or>
        (\<exists>pw name sid user.
             rb_password body = Some pw \<and> rb_username body = Some name
           \<and> rb_steamId body = Some sid
           \<and> user = \<lparr>u_id = env_oid e, username = name, steamId = sid,
                      passwordHash = env_hash e pw, createdAt = env_now e,
                      lastLogin = None, friends = [], friendRequests = [],
                      faction = ''LONER'', isOnline = False\<rparr>
           \<and> d' = d\<lparr>db_users := db_users d @ [user]\<rparr>
           \<and> name \<notin> set (map username (db_users d))
           \<and> (if env_secret e = [] then st = 400 \<and> pl = Caught JwtError
               else st = 201 \<and> pl = TokenUser (generateToken e user) user
                  \<and> authenticate e (Token (generateToken e user)) = Inr (generateToken e user))))"
proof -
  have dup: "rb_username body = Some n \<and> n \<in> set (map username (db_users d)) \<longrightarrow>
      (\<exists>err. serve e h (PostAuthRegister body) d = ((400, Caught err), d))"
    unfolding serve_register using register_duplicate by blast
  have hash_only: "env_hash e p1 = env_hash e p2 \<longrightarrow>
      serve e h (PostAuthRegister (body\<lparr>rb_password := Some p1\<rparr>)) d
      = serve e h (PostAuthRegister (body\<lparr>rb_password := Some p2\<rparr>)) d"
    by (simp add: serve_register post_auth_register_def)
  have result: "serve e h (PostAuthRegister body) d = ((st, pl), d') \<longrightarrow>
        (st = 400 \<and> (\<exists>err. pl = Caught err) \<and> d' = d) \<or>
        (\<exists>pw name sid user.
             rb_password body = Some pw \<and> rb_username body = Some name
           \<and> rb_steamId body = Some sid
           \<and> user = \<lparr>u_id = env_oid e, username = name, steamId = sid,
                      passwordHash = env_hash e pw, createdAt = env_now e,
                      lastLogin = None, friends = [], friendRequests = [],
                      faction = ''LONER'', isOnline = False\<rparr>
           \<and> d' = d\<lparr>db_users := db_users d @ [user]\<rparr>
           \<and> name \<notin> set (map username (db_users d))
           \<and> (if env_secret e = [] then st = 400 \<and> pl = Caught JwtError
               else st = 201 \<and> pl = TokenUser (generateToken e user) user
                  \<and> authenticate e (Token (generateToken e user)) = Inr (generateToken e user)))"
    unfolding serve_register using register_result [of e body d st pl d']
    by (intro impI)
  from dup hash_only result show ?thesis by blast
qed

theorem register_contract_witness:
  "(\<exists>err. serve env0 Absent (PostAuthRegister (dave_body\<lparr>rb_username := Some ''alice''\<rparr>))
            db_server = ((400, Caught err), db_server))
   \<and> serve env_prefix Absent (PostAuthRegister (dave_body\<lparr>rb_password := Some ''hunter2''\<rparr>))
        db_server
     = serve env_prefix Absent (PostAuthRegister (dave_body\<lparr>rb_password := Some ''hunter3''\<rparr>))
        db_server
   \<and> serve env0 Absent (PostAuthRegister dave_body) db_server
     = ((201, TokenUser (generateToken env0 dave) dave),
        db_server\<lparr>db_users := [alice, bob, carol, dave]\<rparr>)
   \<and> authenticate env0 (Token (generateToken env0 dave)) = Inr (generateToken env0 dave)
   \<and> serve env_unset Absent (PostAuthRegister dave_body) db_server
     = ((400, Caught JwtError), db_server\<lparr>db_users := [alice, bob, carol, dave]\<rparr>)"
proof -
  note g = register_contract [where h = Absent and d = db_server]
  have taken: "rb_username (dave_body\<lparr>rb_username := Some ''alice''\<rparr>) = Some ''alice''
      \<and> ''alice'' \<in> set (map username (db_users db_server))"
    by (simp add: db_server_def alice_def)
  from g [where body = "dave_body\<lparr>rb_username := Some ''alice''\<rparr>" and n = "''alice''"
        and e = env0] taken
  have dup: "\<exists>err. serve env0 Absent
      (PostAuthRegister (dave_body\<lparr>rb_username := Some ''alice''\<rparr>)) db_server
      = ((400, Caught err), db_server)"
    by blast
  have collide: "env_hash env_prefix ''hunter2'' = env_hash env_prefix ''hunter3''"
    by (simp add: env_prefix_def)
  from g [where body = dave_body and e = env_prefix and ?p1.0 = "''hunter2''"
        and ?p2.0 = "''hunter3''"] collide
  have same: "serve env_prefix Absent
        (PostAuthRegister (dave_body\<lparr>rb_password := Some ''hunter2''\<rparr>)) db_server
      = serve env_prefix Absent
        (PostAuthRegister (dave_body\<lparr>rb_password := Some ''hunter3''\<rparr>)) db_server"
    by blast
  have made: "new_User e \<lparr>in_username = Some ''dave'', in_steamId = Some ''s-4'',
        in_passwordHash = Some ''$2a$10$2retnuh'', in_friends = [], in_faction = None,
        in_isOnline = None\<rparr> = Inr dave"
    if "env_oid e = 7" "env_now e = 1000" for e
    using that by (simp add: new_User_def Let_def required_string_def factions_def dave_def)
  have stored: "insert_user dave db_server = Inr (db_server\<lparr>db_users := [alice, bob, carol, dave]\<rparr>)"
    by (simp add: insert_user_def db_server_def alice_def bob_def carol_def dave_def)
  have run: "serve env0 Absent (PostAuthRegister dave_body) db_server
      = ((201, TokenUser (generateToken env0 dave) dave),
         db_server\<lparr>db_users := [alice, bob, carol, dave]\<rparr>)"
    using made [of env0] stored
    by (simp add: serve_def post_auth_register_def Let_def call_generateToken_def dave_body_def
          env0_def)
  have unset: "serve env_unset Absent (PostAuthRegister dave_body) db_server
      = ((400, Caught JwtError), db_server\<lparr>db_users := [alice, bob, carol, dave]\<rparr>)"
    using made [of env_unset] stored
    by (simp add: serve_def post_auth_register_def Let_def call_generateToken_def dave_body_def
          env_unset_def env0_def)
  note third = g [where body = dave_body and e = env0 and st = 201
        and pl = "TokenUser (generateToken env0 dave) dave"
        and d' = "db_server\<lparr>db_users := [alice, bob, carol, dave]\<rparr>",
        THEN conjunct2, THEN conjunct2, THEN mp, OF run]
  have configured: "env_secret env0 \<noteq> []" by (simp add: env0_def)
  have "(201::nat) \<noteq> 400" by simp
  with third [unfolded if_not_P [OF configured]] obtain user where
      tu: "TokenUser (generateToken env0 dave) dave = TokenUser (generateToken env0 user) user"
      and au: "authenticate env0 (Token (generateToken env0 user)) = Inr (generateToken env0 user)"
    by blast
  from tu have "user = dave" by simp
  with au have "authenticate env0 (Token (generateToken env0 dave)) = Inr (generateToken env0 dave)"
    by simp
  with dup same run unset show ?thesis by blast
qed

section \<open>Paginated message listings\<close>

lemma ceil_div_ceiling: "ceil_div a b = \<lceil>real_of_int a / real_of_int b\<rceil>"
  by (simp add: ceil_div_def ceiling_divide_eq_div)

lemma newest_first_sorted:
  "sorted_wrt (\<lambda>a b. m_createdAt b \<le> m_createdAt a) (newest_first ms)"
proof -
  have "sorted (map (\<lambda>m. - int (m_createdAt m)) (newest_first ms))"
    unfolding newest_first_def by (rule sorted_sort_key)
  then show ?thesis by (simp add: sorted_map)
qed

lemma newest_first_mset: "mset (newest_first ms) = mset ms"
  by (simp add: newest_first_def)

lemma newest_first_length: "length (newest_first ms) = length ms"
  by (simp add: newest_first_def)

lemma skip_limit_ok:
  "0 \<le> skip \<Longrightarrow> lmt \<noteq> 0 \<Longrightarrow>
   skip_limit skip lmt xs = Inr (take (nat \<bar>lmt\<bar>) (drop (nat skip) xs))"
  by (simp add: skip_limit_def)

lemma or_default_nonzero: "0 < dflt \<Longrightarrow> or_default q dflt \<noteq> 0"
  by (simp add: or_default_def split: option.splits)

lemma listed_rows: "listed (((st, MessagePage md rows), d)) = map fst rows"
  and page_info_rows: "page_info (((st, MessagePage md rows), d)) = Some md"
  by (simp_all add: listed_def page_info_def)

lemma map_fst_populate: "map (fst \<circ> populate_message us b) ms = ms"
  by (induction ms) (simp_all add: populate_message_def)

lemma global_page:
  assumes "page = or_default (q_page q) 1" and "lmt = or_default (q_limit q) 10"
      and "global = filter (\<lambda>m. m_recipientId m = None) (db_messages d)"
      and "0 \<le> (page - 1) * lmt"
  shows "get_messages_global q d =
           ((200, MessagePage
                    \<lparr>totalMessages = int (length global), currentPage = page,
                     totalPages = Some \<lceil>real (length global) / real_of_int lmt\<rceil>, limit = lmt\<rparr>
                    (map (populate_message (db_users d) False)
                       (take (nat \<bar>lmt\<bar>) (drop (nat ((page - 1) * lmt)) (newest_first global))))), d)"
proof -
  have "lmt \<noteq> 0" using assms(2) or_default_nonzero [of 10 "q_limit q"] by simp
  with assms show ?thesis
    by (simp add: get_messages_global_def Let_def skip_limit_ok ceil_div_ceiling)
qed

lemma direct_page:
  assumes "dq_recipientId q = Some rcp"
      and "page = destructured (dq_page q) 1" and "lmt = destructured (dq_limit q) 10"
      and "thread = filter (\<lambda>m. (m_userId m = jwt_id ident \<and> m_recipientId m = Some rcp)
                              \<or> (m_userId m = rcp \<and> m_recipientId m = Some (jwt_id ident)))
                      (db_messages d)"
      and "coerced lmt \<noteq> 0" and "parsed lmt \<noteq> 0" and "0 \<le> (coerced page - 1) * coerced lmt"
  shows "get_messages_direct ident q d =
           ((200, MessagePage
                    \<lparr>totalMessages = int (length thread), currentPage = parsed page,
                     totalPages = Some \<lceil>real (length thread) / real_of_int (coerced lmt)\<rceil>,
                     limit = parsed lmt\<rparr>
                    (map (populate_message (db_users d) True)
                       (take (nat \<bar>parsed lmt\<bar>)
                          (drop (nat ((coerced page - 1) * coerced lmt)) (newest_first thread))))), d)"
  using assms
  by (simp add: get_messages_direct_def Let_def skip_limit_ok ceil_div_ceiling)

lemma three_pages:
  assumes "length xs = 25"
  shows "length (take 10 xs) = 10" "length (take 10 (drop 10 xs)) = 10"
        "length (take 10 (drop 20 xs)) = 5" "take 10 (drop 30 xs) = []"
        "take 10 xs @ take 10 (drop 10 xs) @ take 10 (drop 20 xs) = xs"
proof -
  show "length (take 10 xs) = 10" "length (take 10 (drop 10 xs)) = 10"
       "length (take 10 (drop 20 xs)) = 5" "take 10 (drop 30 xs) = []"
    using assms by simp_all
  have "take 10 (drop 20 xs) = drop 20 xs" using assms by simp
  moreover have "take 10 (drop 10 xs) @ drop 20 xs = drop 10 xs"
    using append_take_drop_id [of 10 "drop 10 xs"] by simp
  ultimately show "take 10 xs @ take 10 (drop 10 xs) @ take 10 (drop 20 xs) = xs"
    by simp
qed

lemma serve_messages:
  assumes "authenticate e h = Inr ident"
  shows "serve e h (GetMessagesGlobal q) d = get_messages_global q d"
    and "serve e h (GetMessagesDirect q') d = get_messages_direct ident q' d"
  using assms by (simp_all add: serve_def protected_def)

text \<open>
  C8. All numbers are integers in JavaScript's exact range. For a caller \<^verbatim>\<open>authenticate\<close>
  lets through, \<^verbatim>\<open>/messages/global\<close> (page and limit read by \<^verbatim>\<open>parseInt\<close>, with the
  defaults for a missing or zero parameter) answers 200 whenever \<open>(page - 1) * limit\<close> is
  not negative, reports \<open>totalPages = \<lceil>totalMessages / limit\<rceil>\<close>, and lists the broadcast
  messages newest first, \<open>(page - 1) * limit\<close> of them skipped and at most \<open>\<bar>limit\<bar>\<close>
  taken. \<^verbatim>\<open>/messages/direct\<close> does the same for the messages between the caller and the
  recipient, with the skip and the page count computed from the numeric values of page and
  limit, and the number of rows and the reported page and limit from what \<^verbatim>\<open>parseInt\<close>
  reads (both non-zero). The newest-first order is a rearrangement of the matching
  messages with non-increasing timestamps. With 25 broadcast messages and \<^verbatim>\<open>limit=10\<close>,
  every page reports \<open>totalPages = 3\<close>; pages 1, 2 and 3 hold 10, 10 and 5 messages and
  together are the whole newest-first list; page 4 is empty.
\<close>

theorem message_pagination:
  assumes auth: "authenticate e h = Inr ident"
  shows
    "(page = or_default (q_page q) 1 \<and> lmt = or_default (q_limit q) 10
        \<and> global = filter (\<lambda>m. m_recipientId m = None) (db_messages d)
        \<and> safe_integer page \<and> safe_integer lmt \<and> safe_integer ((page - 1) * lmt)
        \<and> safe_integer (int (length global))
        \<and> 0 \<le> (page - 1) * lmt \<and> r = serve e h (GetMessagesGlobal q) d \<longrightarrow>
          fst (fst r) = 200 \<and> snd r = d
        \<and> page_info r = Some \<lparr>totalMessages = int (length global), currentPage = page,
              totalPages = Some \<lceil>real (length global) / real_of_int lmt\<rceil>, limit = lmt\<rparr>
        \<and> listed r = take (nat \<bar>lmt\<bar>) (drop (nat ((page - 1) * lmt)) (newest_first global)))
     \<and> (dq_recipientId q' = Some rcp
        \<and> page' = destructured (dq_page q') 1 \<and> lmt' = destructured (dq_limit q') 10
        \<and> thread = filter (\<lambda>m. (m_userId m = jwt_id ident \<and> m_recipientId m = Some rcp)
                              \<or> (m_userId m = rcp \<and> m_recipientId m = Some (jwt_id ident)))
                      (db_messages d)
        \<and> safe_integer (coerced page') \<and> safe_integer (coerced lmt')
        \<and> safe_integer ((coerced page' - 1) * coerced lmt')
        \<and> safe_integer (int (length thread))
        \<and> coerced lmt' \<noteq> 0 \<and> parsed lmt' \<noteq> 0
        \<and> 0 \<le> (coerced page' - 1) * coerced lmt'
        \<and> r' = serve e h (GetMessagesDirect q') d \<longrightarrow>
          fst (fst r') = 200 \<and> snd r' = d
        \<and> page_info r' = Some \<lparr>totalMessages = int (length thread), currentPage = parsed page',
              totalPages = Some \<lceil>real (length thread) / real_of_int (coerced lmt')\<rceil>,
              limit = parsed lmt'\<rparr>
        \<and> listed r' = take (nat \<bar>parsed lmt'\<bar>)
                         (drop (nat ((coerced page' - 1) * coerced lmt')) (newest_first thread)))
     \<and> mset (newest_first ms) = mset ms
     \<and> sorted_wrt (\<lambda>a b. m_createdAt b \<le> m_createdAt a) (newest_first ms)
     \<and> (length (filter (\<lambda>m. m_recipientId m = None) (db_messages d)) = 25
        \<and> pg = (\<lambda>p. serve e h (GetMessagesGlobal \<lparr>q_page = Some p, q_limit = Some 10\<rparr>) d) \<longrightarrow>
          (\<forall>p \<in> {1, 2, 3, 4}. fst (fst (pg p)) = 200
                \<and> map_option totalPages (page_info (pg p)) = Some (Some 3))
        \<and> length (listed (pg 1)) = 10 \<and> length (listed (pg 2)) = 10
        \<and> length (listed (pg 3)) = 5 \<and> listed (pg 4) = []
        \<and> listed (pg 1) @ listed (pg 2) @ listed (pg 3)
            = newest_first (filter (\<lambda>m. m_recipientId m = None) (db_messages d)))"
proof -
  have global: "page = or_default (q_page q) 1 \<and> lmt = or_default (q_limit q) 10
        \<and> global = filter (\<lambda>m. m_recipientId m = None) (db_messages d)
        \<and> safe_integer page \<and> safe_integer lmt \<and> safe_integer ((page - 1) * lmt)
        \<and> safe_integer (int (length global))
        \<and> 0 \<le> (page - 1) * lmt \<and> r = serve e h (GetMessagesGlobal q) d \<longrightarrow>
          fst (fst r) = 200 \<and> snd r = d
        \<and> page_info r = Some \<lparr>totalMessages = int (length global), currentPage = page,
              totalPages = Some \<lceil>real (length global) / real_of_int lmt\<rceil>, limit = lmt\<rparr>
        \<and> listed r = take (nat \<bar>lmt\<bar>) (drop (nat ((page - 1) * lmt)) (newest_first global))"
  proof (intro impI, elim conjE)
    assume a: "page = or_default (q_page q) 1" "lmt = or_default (q_limit q) 10"
      "global = filter (\<lambda>m. m_recipientId m = None) (db_messages d)"
      "0 \<le> (page - 1) * lmt" and r: "r = serve e h (GetMessagesGlobal q) d"
    show "fst (fst r) = 200 \<and> snd r = d
        \<and> page_info r = Some \<lparr>totalMessages = int (length global), currentPage = page,
              totalPages = Some \<lceil>real (length global) / real_of_int lmt\<rceil>, limit = lmt\<rparr>
        \<and> listed r = take (nat \<bar>lmt\<bar>) (drop (nat ((page - 1) * lmt)) (newest_first global))"
      unfolding r serve_messages(1) [OF auth] global_page [OF a]
      by (simp add: listed_rows page_info_rows map_fst_populate)
  qed
  have direct: "dq_recipientId q' = Some rcp
        \<and> page' = destructured (dq_page q') 1 \<and> lmt' = destructured (dq_limit q') 10
        \<and> thread = filter (\<lambda>m. (m_userId m = jwt_id ident \<and> m_recipientId m = Some rcp)
                              \<or> (m_userId m = rcp \<and> m_recipientId m = Some (jwt_id ident)))
                      (db_messages d)
        \<and> safe_integer (coerced page') \<and> safe_integer (coerced lmt')
        \<and> safe_integer ((coerced page' - 1) * coerced lmt')
        \<and> safe_integer (int (length thread))
        \<and> coerced lmt' \<noteq> 0 \<and> parsed lmt' \<noteq> 0
        \<and> 0 \<le> (coerced page' - 1) * coerced lmt'
        \<and> r' = serve e h (GetMessagesDirect q') d \<longrightarrow>
          fst (fst r') = 200 \<and> snd r' = d
        \<and> page_info r' = Some \<lparr>totalMessages = int (length thread), currentPage = parsed page',
              totalPages = Some \<lceil>real (length thread) / real_of_int (coerced lmt')\<rceil>,
              limit = parsed lmt'\<rparr>
        \<and> listed r' = take (nat \<bar>parsed lmt'\<bar>)
                         (drop (nat ((coerced page' - 1) * coerced lmt')) (newest_first thread))"
  proof (intro impI, elim conjE)
    assume a: "dq_recipientId q' = Some rcp"
      "page' = destructured (dq_page q') 1" "lmt' = destructured (dq_limit q') 10"
      "thread = filter (\<lambda>m. (m_userId m = jwt_id ident \<and> m_recipientId m = Some rcp)
                              \<or> (m_userId m = rcp \<and> m_recipientId m = Some (jwt_id ident)))
                      (db_messages d)"
      "coerced lmt' \<noteq> 0" "parsed lmt' \<noteq> 0" "0 \<le> (coerced page' - 1) * coerced lmt'"
      and r: "r' = serve e h (GetMessagesDirect q') d"
    show "fst (fst r') = 200 \<and> snd r' = d
        \<and> page_info r' = Some \<lparr>totalMessages = int (length thread), currentPage = parsed page',
              totalPages = Some \<lceil>real (length thread) / real_of_int (coerced lmt')\<rceil>,
              limit = parsed lmt'\<rparr>
        \<and> listed r' = take (nat \<bar>parsed lmt'\<bar>)
                         (drop (nat ((coerced page' - 1) * coerced lmt')) (newest_first thread))"
      unfolding r serve_messages(2) [OF auth] direct_page [OF a]
      by (simp add: listed_rows page_info_rows map_fst_populate)
  qed
  have example: "length (filter (\<lambda>m. m_recipientId m = None) (db_messages d)) = 25
        \<and> pg = (\<lambda>p. serve e h (GetMessagesGlobal \<lparr>q_page = Some p, q_limit = Some 10\<rparr>) d) \<longrightarrow>
          (\<forall>p \<in> {1, 2, 3, 4}. fst (fst (pg p)) = 200
                \<and> map_option totalPages (page_info (pg p)) = Some (Some 3))
        \<and> length (listed (pg 1)) = 10 \<and> length (listed (pg 2)) = 10
        \<and> length (listed (pg 3)) = 5 \<and> listed (pg 4) = []
        \<and> listed (pg 1) @ listed (pg 2) @ listed (pg 3)
            = newest_first (filter (\<lambda>m. m_recipientId m = None) (db_messages d))"
  proof (intro impI, elim conjE)
    let ?global = "filter (\<lambda>m. m_recipientId m = None) (db_messages d)"
    assume len: "length ?global = 25"
      and pg: "pg = (\<lambda>p. serve e h (GetMessagesGlobal \<lparr>q_page = Some p, q_limit = Some 10\<rparr>) d)"
    have page: "pg p =
        ((200, MessagePage
                 \<lparr>totalMessages = 25, currentPage = p, totalPages = Some 3, limit = 10\<rparr>
                 (map (populate_message (db_users d) False)
                    (take 10 (drop (nat ((p - 1) * 10)) (newest_first ?global))))), d)"
      if "1 \<le> p" for p
    proof -
      have "or_default (Some p) 1 = p" "or_default (Some 10) 10 = 10"
        using that by (simp_all add: or_default_def)
      then show ?thesis
        using that len
        by (simp add: pg serve_messages(1) [OF auth] get_messages_global_def Let_def
              skip_limit_ok ceil_div_def)
    qed
    have n: "length (newest_first ?global) = 25"
      using len by (simp add: newest_first_length)
    have "\<forall>p \<in> {1, 2, 3, 4}. fst (fst (pg p)) = 200
        \<and> map_option totalPages (page_info (pg p)) = Some (Some 3)"
      by (simp add: page page_info_rows)
    moreover have "listed (pg 1) = take 10 (newest_first ?global)"
      "listed (pg 2) = take 10 (drop 10 (newest_first ?global))"
      "listed (pg 3) = take 10 (drop 20 (newest_first ?global))"
      "listed (pg 4) = take 10 (drop 30 (newest_first ?global))"
      by (simp_all add: page listed_rows map_fst_populate)
    ultimately show "(\<forall>p \<in> {1, 2, 3, 4}. fst (fst (pg p)) = 200
                \<and> map_option totalPages (page_info (pg p)) = Some (Some 3))
        \<and> length (listed (pg 1)) = 10 \<and> length (listed (pg 2)) = 10
        \<and> length (listed (pg 3)) = 5 \<and> listed (pg 4) = []
        \<and> listed (pg 1) @ listed (pg 2) @ listed (pg 3) = newest_first ?global"
      using three_pages [OF n] by simp
  qed
  from global direct newest_first_mset [of ms] newest_first_sorted [of ms] example
  show ?thesis by blast
qed

text \<open>
  In the witness the direct listing is asked for with \<^verbatim>\<open>limit=1e1\<close>, which \<^verbatim>\<open>parseInt\<close>
  reads as 1 and arithmetic as 10.
\<close>

theorem message_pagination_witness:
  "length (filter (\<lambda>m. m_recipientId m = None) (db_messages db_25)) = 25
   \<and> map_option totalPages
        (page_info (serve env0 (Token (generateToken env0 alice))
           (GetMessagesGlobal \<lparr>q_page = Some 3, q_limit = Some 10\<rparr>) db_25))
       = Some (Some 3)
   \<and> length (listed (serve env0 (Token (generateToken env0 alice))
           (GetMessagesGlobal \<lparr>q_page = Some 3, q_limit = Some 10\<rparr>) db_25))
       = 5
   \<and> listed (serve env0 (Token (generateToken env0 alice))
           (GetMessagesGlobal \<lparr>q_page = Some 4, q_limit = Some 10\<rparr>) db_25)
       = []
   \<and> page_info (serve env0 (Token (generateToken env0 alice))
           (GetMessagesGlobal \<lparr>q_page = None, q_limit = Some 7\<rparr>) db_25)
       = Some \<lparr>totalMessages = 25, currentPage = 1, totalPages = Some 4, limit = 7\<rparr>
   \<and> page_info (serve env0 (Token (generateToken env0 alice))
           (GetMessagesDirect \<lparr>dq_recipientId = Some 2, dq_page = None,
              dq_limit = Some \<lparr>parsed = 1, coerced = 10\<rparr>\<rparr>) db_25)
       = Some \<lparr>totalMessages = 2, currentPage = 1, totalPages = Some 1, limit = 1\<rparr>
   \<and> listed (serve env0 (Token (generateToken env0 alice))
           (GetMessagesDirect \<lparr>dq_recipientId = Some 2, dq_page = None,
              dq_limit = Some \<lparr>parsed = 1, coerced = 10\<rparr>\<rparr>) db_25)
       = [direct_ba]"
proof -
  let ?h = "Token (generateToken env0 alice)"
  let ?g7 = "\<lparr>q_page = None, q_limit = Some 7\<rparr>"
  let ?d1 = "\<lparr>dq_recipientId = Some 2, dq_page = None, dq_limit = Some \<lparr>parsed = 1, coerced = 10\<rparr>\<rparr>"
  let ?pg = "\<lambda>p. serve env0 ?h (GetMessagesGlobal \<lparr>q_page = Some p, q_limit = Some 10\<rparr>) db_25"
  have auth: "authenticate env0 ?h = Inr (generateToken env0 alice)"
    by (rule authenticate_own_token)
  have global: "filter (\<lambda>m. m_recipientId m = None) (db_messages db_25) = map broadcast [0..<25]"
    by (simp add: db_25_def filter_map comp_def broadcast_def direct_ab_def direct_ba_def)
  then have len: "length (filter (\<lambda>m. m_recipientId m = None) (db_messages db_25)) = 25"
    by simp
  have thread: "filter (\<lambda>m. (m_userId m = jwt_id (generateToken env0 alice) \<and> m_recipientId m = Some 2)
                         \<or> (m_userId m = 2 \<and> m_recipientId m = Some (jwt_id (generateToken env0 alice))))
                  (db_messages db_25) = [direct_ab, direct_ba]"
    by (simp add: db_25_def filter_map comp_def broadcast_def direct_ab_def direct_ba_def
          generateToken_payload alice_def)
  have sorted: "newest_first [direct_ab, direct_ba] = [direct_ba, direct_ab]"
    by (simp add: newest_first_def direct_ab_def direct_ba_def)
  note g = message_pagination [OF auth, where d = db_25
      and q = ?g7 and page = 1 and lmt = 7 and global = "map broadcast [0..<25]"
      and r = "serve env0 ?h (GetMessagesGlobal ?g7) db_25"
      and q' = ?d1 and rcp = 2 and page' = "\<lparr>parsed = 1, coerced = 1\<rparr>"
      and lmt' = "\<lparr>parsed = 1, coerced = 10\<rparr>" and thread = "[direct_ab, direct_ba]"
      and r' = "serve env0 ?h (GetMessagesDirect ?d1) db_25"
      and pg = ?pg]
  have g7: "page_info (serve env0 ?h (GetMessagesGlobal ?g7) db_25)
      = Some \<lparr>totalMessages = 25, currentPage = 1, totalPages = Some 4, limit = 7\<rparr>"
    using g [THEN conjunct1] global by (simp add: or_default_def safe_integer_def)
  have fifth: "\<lceil>(1::real) / 5\<rceil> = 1"
    by (rule ceiling_unique) simp_all
  have d1: "page_info (serve env0 ?h (GetMessagesDirect ?d1) db_25)
      = Some \<lparr>totalMessages = 2, currentPage = 1, totalPages = Some 1, limit = 1\<rparr>"
    "listed (serve env0 ?h (GetMessagesDirect ?d1) db_25) = [direct_ba]"
    using g [THEN conjunct2, THEN conjunct1] thread sorted fifth
    by (simp_all add: destructured_def safe_integer_def)
  have ex: "map_option totalPages (page_info (?pg 3)) = Some (Some 3)"
    "length (listed (?pg 3)) = 5" "listed (?pg 4) = []"
    using g [THEN conjunct2, THEN conjunct2, THEN conjunct2, THEN conjunct2] len by simp_all
  from len g7 d1 ex show ?thesis by blast
qed

section \<open>Sending a friend request\<close>

lemma serve_friend_requests:
  "authenticate e h = Inr ident \<Longrightarrow>
   serve e h (PostFriendRequests t) d = post_friend_requests e ident t d"
  by (simp add: serve_def protected_def)

lemma js_find_callback:
  "js_find existing_request_callback rs = (if rs = [] then Inr None else Inl TypeError)"
  by (cases rs) (simp_all add: existing_request_callback_def subdoc_user_def)

text \<open>What the handler does, case by case.\<close>

lemma post_friend_requests_cases:
  "post_friend_requests e ident toUserId d =
     (if Some (jwt_id ident) = toUserId
      then ((400, Error ''You can't send a friend request to yourself.''), d)
      else case (case toUserId of None \<Rightarrow> None | Some t \<Rightarrow> findById t (db_users d)) of
        None \<Rightarrow> ((404, Error ''User not found''), d)
      | Some toUser \<Rightarrow>
          if jwt_id ident \<in> set (friends toUser)
          then ((400, Error ''User is already your friend.''), d)
          else if friendRequests toUser \<noteq> []
          then ((400, Caught TypeError), d)
          else ((201, Info ''Friend request sent successfully.''),
                update_user (u_id toUser)
                  (\<lambda>u. u\<lparr>friendRequests := friendRequests u @
                             [\<lparr>fr_id = env_oid e, fr_from = jwt_id ident, fr_to = toUserId,
                               fr_status = default_status\<rparr>]\<rparr>) d))"
  by (simp add: post_friend_requests_def js_find_callback split: option.splits)

text \<open>
  C3, at an input where the route departs from it: Bob holds a request from Carol and
  none from Alice, Alice and Bob are different users and not friends, and Alice's request
  to Bob is answered 400 with the caught \<^verbatim>\<open>TypeError\<close>; nothing is appended.
\<close>

theorem send_request_shadowed:
  "serve env0 (Token (generateToken env0 alice)) (PostFriendRequests (Some (u_id bob)))
     db_server = ((400, Caught TypeError), db_server)
   \<and> findById (u_id bob) (db_users db_server) = Some bob
   \<and> u_id alice \<noteq> u_id bob
   \<and> u_id alice \<notin> set (friends bob) \<and> u_id bob \<notin> set (friends alice)
   \<and> filter (\<lambda>r. fr_from r = u_id alice) (friendRequests bob) = []
   \<and> map fr_from (friendRequests bob) = [u_id carol]"
proof -
  have auth: "authenticate env0 (Token (generateToken env0 alice)) = Inr (generateToken env0 alice)"
    by (rule authenticate_own_token)
  have bob: "findById (u_id bob) (db_users db_server) = Some bob"
    by (simp add: findById_def db_server_def alice_def bob_def)
  have "post_friend_requests env0 (generateToken env0 alice) (Some (u_id bob)) db_server
      = ((400, Caught TypeError), db_server)"
    unfolding post_friend_requests_cases
    by (simp add: bob generateToken_payload) (simp add: alice_def bob_def)
  then have run: "serve env0 (Token (generateToken env0 alice))
      (PostFriendRequests (Some (u_id bob))) db_server = ((400, Caught TypeError), db_server)"
    by (simp add: serve_friend_requests [OF auth])
  have rest: "u_id alice \<noteq> u_id bob" "u_id alice \<notin> set (friends bob)"
    "u_id bob \<notin> set (friends alice)"
    "filter (\<lambda>r. fr_from r = u_id alice) (friendRequests bob) = []"
    "map fr_from (friendRequests bob) = [u_id carol]"
    by (simp_all add: alice_def bob_def carol_def)
  from run bob rest show ?thesis by blast
qed

section \<open>Listing pending requests\<close>

text \<open>
  C2. For a caller \<^verbatim>\<open>authenticate\<close> lets through and whose user exists,
  \<^verbatim>\<open>GET /friend-requests\<close> answers 200 and leaves the database alone; its rows are, in
  order, the records of the caller's request list whose status is \<^verbatim>\<open>pending\<close>, each with
  the id and username of its sender (or \<^verbatim>\<open>null\<close> when the sender is gone); a record is
  listed exactly when it is in the caller's list with status \<^verbatim>\<open>pending\<close>, so none with
  status \<^verbatim>\<open>accepted\<close> or \<^verbatim>\<open>declined\<close> is.
\<close>

theorem pending_listing:
  assumes auth: "authenticate e h = Inr ident"
      and me: "findById (jwt_id ident) (db_users d) = Some u"
  shows "\<exists>rows.
           serve e h GetFriendRequests d = ((200, RequestsJson rows), d)
         \<and> rows = map (\<lambda>r. (r, map_option
                                  (\<lambda>a. \<lparr>p_id = u_id a, p_username = username a, p_faction = None\<rparr>)
                                  (findById (fr_from r) (db_users d))))
                     (filter (\<lambda>r. fr_status r = ''pending'') (friendRequests u))
         \<and> map fst rows = filter (\<lambda>r. fr_status r = ''pending'') (friendRequests u)
         \<and> (\<forall>r. r \<in> set (map fst rows) \<longleftrightarrow> r \<in> set (friendRequests u) \<and> fr_status r = ''pending'')
         \<and> (\<forall>r \<in> set (map fst rows). fr_status r \<noteq> ''accepted'' \<and> fr_status r \<noteq> ''declined'')"
proof -
  define rows where "rows = map (\<lambda>r. (r, populate_sender (db_users d) (fr_from r)))
      (filter (\<lambda>r. fr_status r = ''pending'') (friendRequests u))"
  have run: "serve e h GetFriendRequests d = ((200, RequestsJson rows), d)"
    unfolding rows_def serve_accept_decline(3) [OF auth] by (rule listing [OF me])
  have shape: "rows = map (\<lambda>r. (r, map_option
                                  (\<lambda>a. \<lparr>p_id = u_id a, p_username = username a, p_faction = None\<rparr>)
                                  (findById (fr_from r) (db_users d))))
                     (filter (\<lambda>r. fr_status r = ''pending'') (friendRequests u))"
    by (simp add: rows_def populate_sender_def)
  have requests: "map fst rows = filter (\<lambda>r. fr_status r = ''pending'') (friendRequests u)"
    by (simp add: rows_def comp_def)
  have exactly: "\<forall>r. r \<in> set (map fst rows) \<longleftrightarrow> r \<in> set (friendRequests u) \<and> fr_status r = ''pending''"
    by (simp add: requests)
  have others: "\<forall>r \<in> set (map fst rows). fr_status r \<noteq> ''accepted'' \<and> fr_status r \<noteq> ''declined''"
    by (simp add: requests)
  from run shape requests exactly others show ?thesis by blast
qed

theorem pending_listing_witness:
  "serve env0 (Token (generateToken env0 erin)) GetFriendRequests db_erin
     = ((200, RequestsJson
          [(\<lparr>fr_id = 71, fr_from = 3, fr_to = Some 4, fr_status = ''pending''\<rparr>,
            Some \<lparr>p_id = 3, p_username = ''carol'', p_faction = None\<rparr>),
           (\<lparr>fr_id = 73, fr_from = 99, fr_to = Some 4, fr_status = ''pending''\<rparr>, None)]),
        db_erin)
   \<and> map fr_status (friendRequests erin) = [''accepted'', ''pending'', ''declined'', ''pending'']"
proof -
  let ?tok = "generateToken env0 erin"
  have auth: "authenticate env0 (Token ?tok) = Inr ?tok"
    by (rule authenticate_own_token)
  have me: "findById (jwt_id ?tok) (db_users db_erin) = Some erin"
    by (simp add: generateToken_payload findById_def db_erin_def alice_def bob_def carol_def
          erin_def)
  from pending_listing [OF auth me] obtain rows where
      run: "serve env0 (Token ?tok) GetFriendRequests db_erin = ((200, RequestsJson rows), db_erin)"
      and rows: "rows = map (\<lambda>r. (r, map_option
                                  (\<lambda>a. \<lparr>p_id = u_id a, p_username = username a, p_faction = None\<rparr>)
                                  (findById (fr_from r) (db_users db_erin))))
                     (filter (\<lambda>r. fr_status r = ''pending'') (friendRequests erin))"
    by blast
  have "rows = [(\<lparr>fr_id = 71, fr_from = 3, fr_to = Some 4, fr_status = ''pending''\<rparr>,
            Some \<lparr>p_id = 3, p_username = ''carol'', p_faction = None\<rparr>),
           (\<lparr>fr_id = 73, fr_from = 99, fr_to = Some 4, fr_status = ''pending''\<rparr>, None)]"
    unfolding rows
    by (simp add: erin_def findById_def db_erin_def alice_def bob_def carol_def)
  with run show ?thesis by (simp add: erin_def)
qed

section \<open>Login\<close>

lemma serve_login: "serve e h (PostAuthLogin body) d = post_auth_login e body d"
  by (simp add: serve_def)

text \<open>
  C5. \<^verbatim>\<open>POST /auth/login\<close> answers 404 and writes nothing when no user has the username,
  and 401 and writes nothing when the password does not compare with the stored hash.
  When it compares, the user with that id gets the clock's time as last-login time and
  the online flag set, in the database; with a secret configured the answer is 200 with
  a token for the user, one \<^verbatim>\<open>authenticate\<close> accepts, and the updated user; with none,
  signing throws after the write and the answer is 400.
\<close>

theorem login_contract:
  "(findOne_username (lb_username body) (db_users d) = None \<longrightarrow>
      serve e h (PostAuthLogin body) d = ((404, Error ''User not found''), d))
   \<and> (findOne_username (lb_username body) (db_users d) = Some u \<and> lb_password body = Some pw
        \<and> \<not> env_compare e pw (passwordHash u) \<longrightarrow>
      serve e h (PostAuthLogin body) d = ((401, Error ''Invalid credentials''), d))
   \<and> (findOne_username (lb_username body) (db_users d) = Some u \<and> lb_password body = Some pw
        \<and> env_compare e pw (passwordHash u)
        \<and> u' = u\<lparr>lastLogin := Some (env_now e), isOnline := True\<rparr>
        \<and> d' = update_user (u_id u) (\<lambda>x. x\<lparr>lastLogin := Some (env_now e), isOnline := True\<rparr>) d \<longrightarrow>
      serve e h (PostAuthLogin body) d
        = (if env_secret e = [] then ((400, Caught JwtError), d')
           else ((200, TokenUser (generateToken e u) u'), d'))
      \<and> (env_secret e \<noteq> [] \<longrightarrow>
            authenticate e (Token (generateToken e u)) = Inr (generateToken e u))
      \<and> jwt_id (generateToken e u) = u_id u \<and> jwt_username (generateToken e u) = username u
      \<and> lastLogin u' = Some (env_now e) \<and> isOnline u'
      \<and> findById (u_id u) (db_users d')
          = map_option (\<lambda>x. x\<lparr>lastLogin := Some (env_now e), isOnline := True\<rparr>)
              (findById (u_id u) (db_users d))
      \<and> (findById (u_id u) (db_users d) = Some u \<longrightarrow> findById (u_id u) (db_users d') = Some u'))"
proof -
  have unknown: "findOne_username (lb_username body) (db_users d) = None \<longrightarrow>
      serve e h (PostAuthLogin body) d = ((404, Error ''User not found''), d)"
    by (simp add: serve_login post_auth_login_def)
  have wrong: "findOne_username (lb_username body) (db_users d) = Some u \<and> lb_password body = Some pw
        \<and> \<not> env_compare e pw (passwordHash u) \<longrightarrow>
      serve e h (PostAuthLogin body) d = ((401, Error ''Invalid credentials''), d)"
    by (simp add: serve_login post_auth_login_def)
  have right: "findOne_username (lb_username body) (db_users d) = Some u \<and> lb_password body = Some pw
        \<and> env_compare e pw (passwordHash u)
        \<and> u' = u\<lparr>lastLogin := Some (env_now e), isOnline := True\<rparr>
        \<and> d' = update_user (u_id u) (\<lambda>x. x\<lparr>lastLogin := Some (env_now e), isOnline := True\<rparr>) d \<longrightarrow>
      serve e h (PostAuthLogin body) d
        = (if env_secret e = [] then ((400, Caught JwtError), d')
           else ((200, TokenUser (generateToken e u) u'), d'))
      \<and> (env_secret e \<noteq> [] \<longrightarrow>
            authenticate e (Token (generateToken e u)) = Inr (generateToken e u))
      \<and> jwt_id (generateToken e u) = u_id u \<and> jwt_username (generateToken e u) = username u
      \<and> lastLogin u' = Some (env_now e) \<and> isOnline u'
      \<and> findById (u_id u) (db_users d')
          = map_option (\<lambda>x. x\<lparr>lastLogin := Some (env_now e), isOnline := True\<rparr>)
              (findById (u_id u) (db_users d))
      \<and> (findById (u_id u) (db_users d) = Some u \<longrightarrow> findById (u_id u) (db_users d') = Some u')"
  proof (intro impI, elim conjE)
    assume found: "findOne_username (lb_username body) (db_users d) = Some u"
      and pw: "lb_password body = Some pw" "env_compare e pw (passwordHash u)"
      and u': "u' = u\<lparr>lastLogin := Some (env_now e), isOnline := True\<rparr>"
      and d': "d' = update_user (u_id u) (\<lambda>x. x\<lparr>lastLogin := Some (env_now e), isOnline := True\<rparr>) d"
    have token: "generateToken e u' = generateToken e u"
      by (simp add: u' generateToken_def)
    have run: "serve e h (PostAuthLogin body) d
        = (if env_secret e = [] then ((400, Caught JwtError), d')
           else ((200, TokenUser (generateToken e u) u'), d'))"
      using found pw token
      by (simp add: serve_login post_auth_login_def Let_def call_generateToken_def u' d')
    have stored: "findById (u_id u) (db_users d')
          = map_option (\<lambda>x. x\<lparr>lastLogin := Some (env_now e), isOnline := True\<rparr>)
              (findById (u_id u) (db_users d))"
      by (simp add: d' findById_update_user)
    then have mine: "findById (u_id u) (db_users d) = Some u \<longrightarrow> findById (u_id u) (db_users d') = Some u'"
      by (simp add: u')
    from run stored mine
    show "serve e h (PostAuthLogin body) d
        = (if env_secret e = [] then ((400, Caught JwtError), d')
           else ((200, TokenUser (generateToken e u) u'), d'))
      \<and> (env_secret e \<noteq> [] \<longrightarrow>
            authenticate e (Token (generateToken e u)) = Inr (generateToken e u))
      \<and> jwt_id (generateToken e u) = u_id u \<and> jwt_username (generateToken e u) = username u
      \<and> lastLogin u' = Some (env_now e) \<and> isOnline u'
      \<and> findById (u_id u) (db_users d')
          = map_option (\<lambda>x. x\<lparr>lastLogin := Some (env_now e), isOnline := True\<rparr>)
              (findById (u_id u) (db_users d))
      \<and> (findById (u_id u) (db_users d) = Some u \<longrightarrow> findById (u_id u) (db_users d') = Some u')"
      by (simp add: authenticate_own_token generateToken_payload u')
  qed
  from unknown wrong right show ?thesis by blast
qed

theorem login_contract_witness:
  "serve env0 Absent (PostAuthLogin \<lparr>lb_username = ''nobody'', lb_password = Some ''password''\<rparr>)
      db_server = ((404, Error ''User not found''), db_server)
   \<and> serve env0 Absent (PostAuthLogin \<lparr>lb_username = ''alice'', lb_password = Some ''guess''\<rparr>)
      db_server = ((401, Error ''Invalid credentials''), db_server)
   \<and> serve env0 Absent (PostAuthLogin \<lparr>lb_username = ''alice'', lb_password = Some ''password''\<rparr>)
      db_server
     = ((200, TokenUser (generateToken env0 alice) (alice\<lparr>lastLogin := Some 1000, isOnline := True\<rparr>)),
        db_server\<lparr>db_users := [alice\<lparr>lastLogin := Some 1000, isOnline := True\<rparr>, bob, carol]\<rparr>)
   \<and> lastLogin alice = None \<and> \<not> isOnline alice
   \<and> serve env_unset Absent (PostAuthLogin \<lparr>lb_username = ''alice'', lb_password = Some ''password''\<rparr>)
      db_server
     = ((400, Caught JwtError),
        db_server\<lparr>db_users := [alice\<lparr>lastLogin := Some 1000, isOnline := True\<rparr>, bob, carol]\<rparr>)"
proof -
  let ?good = "\<lparr>lb_username = ''alice'', lb_password = Some ''password''\<rparr>"
  let ?bad = "\<lparr>lb_username = ''alice'', lb_password = Some ''guess''\<rparr>"
  let ?none = "\<lparr>lb_username = ''nobody'', lb_password = Some ''password''\<rparr>"
  let ?alice' = "alice\<lparr>lastLogin := Some 1000, isOnline := True\<rparr>"
  let ?d' = "db_server\<lparr>db_users := [?alice', bob, carol]\<rparr>"
  have nobody: "findOne_username (lb_username ?none) (db_users db_server) = None"
    by (simp add: findOne_username_def db_server_def alice_def bob_def carol_def)
  have found: "findOne_username ''alice'' (db_users db_server) = Some alice"
    by (simp add: findOne_username_def db_server_def alice_def)
  have guess: "\<not> env_compare env0 ''guess'' (passwordHash alice)"
    and good: "env_compare e ''password'' (passwordHash alice)"
      if "env_compare e = env_compare env0" for e
    using that by (simp_all add: env0_def alice_def)
  have written: "update_user (u_id alice) (\<lambda>x. x\<lparr>lastLogin := Some 1000, isOnline := True\<rparr>) db_server = ?d'"
    by (simp add: update_user_def db_server_def)
  have unknown: "serve env0 Absent (PostAuthLogin ?none) db_server
      = ((404, Error ''User not found''), db_server)"
    using login_contract [where body = ?none and d = db_server and e = env0 and h = Absent] nobody
    by blast
  have wrong: "serve env0 Absent (PostAuthLogin ?bad) db_server
      = ((401, Error ''Invalid credentials''), db_server)"
    using login_contract [where body = ?bad and d = db_server and e = env0 and h = Absent
        and u = alice and pw = "''guess''"] found guess [of env0]
    by simp
  have right: "serve e Absent (PostAuthLogin ?good) db_server
      = (if env_secret e = [] then ((400, Caught JwtError), ?d')
         else ((200, TokenUser (generateToken e alice) ?alice'), ?d'))"
    if "env_compare e = env_compare env0" "env_now e = 1000" for e
    using login_contract [where body = ?good and d = db_server and e = e and h = Absent
        and u = alice and pw = "''password''" and u' = ?alice' and d' = ?d']
      found good [OF that(1)] written that(2)
    by simp
  have ok: "serve env0 Absent (PostAuthLogin ?good) db_server
      = ((200, TokenUser (generateToken env0 alice) ?alice'), ?d')"
    using right [of env0] by (simp add: env0_def)
  have unset: "serve env_unset Absent (PostAuthLogin ?good) db_server = ((400, Caught JwtError), ?d')"
    using right [of env_unset] by (simp add: env_unset_def env0_def)
  have before: "lastLogin alice = None" "\<not> isOnline alice"
    by (simp_all add: alice_def)
  from unknown wrong ok before unset show ?thesis by blast
qed

section \<open>The unprotected route\<close>

text \<open>
  Every route registered with \<^verbatim>\<open>authenticate\<close> answers a caller the middleware refuses
  with the middleware's refusal and writes nothing (a path the file does not register
  gets the 404 page).
\<close>

lemma protected_routes_refuse:
  assumes "authenticate e h = Inl refusal"
      and "\<not> (\<exists>b. rq = PostAuthRegister b)" "\<not> (\<exists>b. rq = PostAuthLogin b)"
      and "\<not> (\<exists>b. rq = PostUsers b)"
  shows "serve e h rq d = (refusal, d) \<or> serve e h rq d = ((404, NotFoundPage), d)"
  using assms by (cases rq) (simp_all add: serve_def protected_def)

text \<open>
  C9, at an input where the code departs from it: \<^verbatim>\<open>POST /users\<close> is registered
  without \<^verbatim>\<open>authenticate\<close>. A request with no token at all is answered 201, and the
  user it describes (password hash, friend list and online flag as the caller chose) is
  written to the database.
\<close>

theorem post_users_without_token:
  "authenticate env0 Absent = Inl (401, Error ''No token provided'')
   \<and> serve env0 Absent (PostUsers mallory_fields) db_server
     = ((201, UserJson mallory),
        db_server\<lparr>db_users := [alice, bob, carol, mallory]\<rparr>)"
proof -
  have refused: "authenticate env0 Absent = Inl (401, Error ''No token provided'')"
    by (simp add: authenticate_def)
  have made: "new_User env0 mallory_fields = Inr mallory"
    by (simp add: new_User_def Let_def required_string_def factions_def mallory_fields_def
          mallory_def env0_def)
  have server: "insert_user mallory db_server
      = Inr (db_server\<lparr>db_users := [alice, bob, carol, mallory]\<rparr>)"
    by (simp add: insert_user_def db_server_def alice_def bob_def carol_def mallory_def)
  from refused made server show ?thesis
    by (simp add: serve_def post_users_def)
qed

end
